theory Spec2Isabelle
  imports Complex_Main "HOL-Library.Word" "HOL-Library.Multiset"
begin

section \<open>The line parser of nginx-ingress-parser (internal/parser/parser.go)\<close>

text \<open>
  Go's \<open>int64\<close>, and \<open>int\<close> and \<open>uint\<close> at their 64-bit width, are 64-bit words:
  \<open>+\<close> wraps around, \<open>sint\<close> reads a signed value, \<open>unat\<close> an unsigned one.
  A \<open>float64\<close> is modelled by the real number it stands for: the comparison
  with a constant is exact, the rounding of a sum of latencies is not modelled.
\<close>

type_synonym int64 = "64 word"
type_synonym go_int = "64 word"
type_synonym go_uint = "64 word"

text \<open>The values that \<open>typeifyParsedLine\<close> stores in a \<open>map[string]interface{}\<close>.\<close>

datatype val = IntV int64 | FloatV real | StrV string

text \<open>
  Every error the parser can return: the template mismatch reported by a gonx
  parser, the \<open>fmt.Errorf\<close> calls of \<open>toString\<close>, \<open>toFloat64\<close>, \<open>toInt64\<close> and
  \<open>requestStringToReq\<close>, and the errors handed up from \<open>time.Parse\<close> and \<open>url.Parse\<close>.
\<close>

datatype error =
    NoMatch string
  | FieldDoesNotExist string
  | NotString string
  | NotFloat64 string
  | NotInt64 string
  | IncorrectFormat string
  | TimeError string
  | UrlError string

type_synonym fields = "string \<rightharpoonup> string"
type_synonym typed_fields = "string \<rightharpoonup> val"

text \<open>The part of \<open>url.URL\<close> that the parser reads.\<close>

record URL =
  url_Path :: string
  url_RawQuery :: string

text \<open>
  The functions of Go's standard library whose results depend on floating point,
  time zones or RFC 3986 are parameters of the model: \<open>strconv.ParseFloat(v, 64)\<close>
  (\<open>None\<close> when it returns an error), \<open>time.Parse(layout, value)\<close> and \<open>url.Parse\<close>.
  \<open>time_zero\<close> is the zero value of \<open>time.Time\<close>.
\<close>

record 't stdlib =
  ParseFloat :: "string \<Rightarrow> real option"
  time_Parse :: "string \<Rightarrow> string \<Rightarrow> error + 't"
  url_Parse :: "string \<Rightarrow> error + URL"
  time_zero :: 't

record Request =
  Method :: string
  Path :: string
  Query :: string

record 't NginxResult =
  RemoteAddr :: string
  RemoteUser :: string
  UpstreamAddr :: string
  TimeLocal :: 't
  Request :: "Request option"
  RequestTime :: real
  UpstreamStatus :: int64
  TimedOut :: bool

text \<open>
  \<open>gonx.Parser.ParseString\<close> for the two compiled templates: the fields of the
  line, or the error of a line that does not match.
\<close>

record NginxParser =
  gonxParser :: "string \<Rightarrow> error + fields"
  gonxErrParser :: "string \<Rightarrow> error + fields"

definition nginxIngressTimeFormat :: string where
  "nginxIngressTimeFormat = ''2/Jan/2006:15:04:05 +0000''"

subsection \<open>strconv.ParseInt(v, 10, 64) and strings.Split\<close>

definition is_digit :: "char \<Rightarrow> bool" where
  "is_digit c = (c \<in> set ''0123456789'')"

definition digit_val :: "char \<Rightarrow> nat" where
  "digit_val c = of_char c - of_char CHR ''0''"

text \<open>The value of a string of decimal digits, most significant digit first.\<close>

definition digits_val :: "string \<Rightarrow> nat" where
  "digits_val s = foldl (\<lambda>n c. 10 * n + digit_val c) 0 s"

text \<open>
  \<open>strconv.ParseInt(s, 10, 64)\<close>: an optional sign, then at least one decimal
  digit and nothing else; a value outside \<open>[-2^63, 2^63 - 1]\<close> is a range error.
\<close>

definition ParseInt :: "string \<Rightarrow> int64 option" where
  "ParseInt s =
     (case s of
        [] \<Rightarrow> None
      | c # cs \<Rightarrow>
          (let neg = (c = CHR ''-'');
               s0 = (if c = CHR ''+'' \<or> c = CHR ''-'' then cs else s)
           in if s0 = [] \<or> \<not> list_all is_digit s0 then None
              else let un = digits_val s0
                   in if \<not> neg \<and> un \<ge> 2 ^ 63 then None
                      else if neg \<and> un > 2 ^ 63 then None
                      else Some (if neg then - of_nat un else of_nat un)))"

text \<open>\<open>strings.Split(s, sep)\<close> for a separator of one byte: never an empty list.\<close>

fun Split :: "string \<Rightarrow> char \<Rightarrow> string list" where
  "Split [] sep = [[]]"
| "Split (c # cs) sep =
     (if c = sep then [] # Split cs sep
      else (case Split cs sep of
              [] \<Rightarrow> [[c]]
            | w # ws \<Rightarrow> (c # w) # ws))"

subsection \<open>typeifyParsedLine\<close>

text \<open>
  One round of the loop of \<open>typeifyParsedLine\<close>: what is stored for a raw value
  (\<open>None\<close> when the round ends without storing anything). The cases of the Go
  \<open>switch\<close> are tried in their order; a case whose parse fails leaves the
  \<open>switch\<close> and the raw string is stored.
\<close>

definition typeify_value :: "'t stdlib \<Rightarrow> string \<Rightarrow> val option" where
  "typeify_value lib v =
     (if CHR ''.'' \<in> set v then
        (case ParseFloat lib v of
           Some f \<Rightarrow> Some (FloatV f)
         | None \<Rightarrow> Some (StrV v))
      else if v = ''-'' then None
      else (case ParseInt v of
              Some i \<Rightarrow> Some (IntV i)
            | None \<Rightarrow> Some (StrV v)))"

definition typeifyParsedLine :: "'t stdlib \<Rightarrow> fields \<Rightarrow> typed_fields" where
  "typeifyParsedLine lib pl =
     (\<lambda>k. case pl k of None \<Rightarrow> None | Some v \<Rightarrow> typeify_value lib v)"

subsection \<open>Field access by type assertion\<close>

definition toString :: "typed_fields \<Rightarrow> string \<Rightarrow> error + string" where
  "toString parsedLine field =
     (case parsedLine field of
        None \<Rightarrow> Inl (FieldDoesNotExist field)
      | Some (StrV str) \<Rightarrow> Inr str
      | Some _ \<Rightarrow> Inl (NotString field))"

definition toFloat64 :: "typed_fields \<Rightarrow> string \<Rightarrow> error + real" where
  "toFloat64 parsedLine field =
     (case parsedLine field of
        None \<Rightarrow> Inl (FieldDoesNotExist field)
      | Some (FloatV res) \<Rightarrow> Inr res
      | Some _ \<Rightarrow> Inl (NotFloat64 field))"

definition toInt64 :: "typed_fields \<Rightarrow> string \<Rightarrow> error + int64" where
  "toInt64 parsedLine field =
     (case parsedLine field of
        None \<Rightarrow> Inl (FieldDoesNotExist field)
      | Some (IntV res) \<Rightarrow> Inr res
      | Some _ \<Rightarrow> Inl (NotInt64 field))"

subsection \<open>requestStringToReq\<close>

definition requestStringToReq :: "'t stdlib \<Rightarrow> string \<Rightarrow> error + Request" where
  "requestStringToReq lib str =
     (case Split str CHR '' '' of
        [m, target, proto] \<Rightarrow>
          (case url_Parse lib (''http://localhost'' @ target) of
             Inl err \<Rightarrow> Inl err
           | Inr urlRes \<Rightarrow>
               Inr \<lparr>Method = m, Path = url_Path urlRes, Query = url_RawQuery urlRes\<rparr>)
      | _ \<Rightarrow> Inl (IncorrectFormat str))"

subsection \<open>Building the record\<close>

text \<open>The zero value of \<open>NginxResult\<close>, as \<open>&NginxResult{}\<close> allocates it.\<close>

definition NginxResult_zero :: "'t stdlib \<Rightarrow> 't NginxResult" where
  "NginxResult_zero lib =
     \<lparr>RemoteAddr = [], RemoteUser = [], UpstreamAddr = [], TimeLocal = time_zero lib,
      Request = None, RequestTime = 0, UpstreamStatus = 0, TimedOut = False\<rparr>"

definition parsedLineToResult :: "'t stdlib \<Rightarrow> typed_fields \<Rightarrow> error + 't NginxResult" where
  "parsedLineToResult lib line =
     (let res = NginxResult_zero lib;
          res = res\<lparr>UpstreamAddr :=
                  (case toString line ''upstream_addr'' of
                     Inl err \<Rightarrow> ''0.0.0.0'' | Inr s \<Rightarrow> s)\<rparr>
      in case toFloat64 line ''request_time'' of
           Inl err \<Rightarrow> Inl err
         | Inr rt \<Rightarrow>
        (case toString line ''time_local'' of
           Inl err \<Rightarrow> Inl err
         | Inr reqTimeLocalStr \<Rightarrow>
        (case time_Parse lib nginxIngressTimeFormat reqTimeLocalStr of
           Inl err \<Rightarrow> Inl err
         | Inr tloc \<Rightarrow>
        (case toInt64 line ''upstream_status'' of
           Inl err \<Rightarrow> Inl err
         | Inr us \<Rightarrow>
        (case toString line ''request'' of
           Inl err \<Rightarrow> Inl err
         | Inr reqStr \<Rightarrow>
        (case requestStringToReq lib reqStr of
           Inl err \<Rightarrow> Inl err
         | Inr req \<Rightarrow>
             Inr (res\<lparr>RequestTime := rt, TimeLocal := tloc, UpstreamStatus := us,
                      Request := Some req\<rparr>)))))))"

definition parsedErrLineToResult :: "'t stdlib \<Rightarrow> typed_fields \<Rightarrow> error + 't NginxResult" where
  "parsedErrLineToResult lib line =
     (let res = (NginxResult_zero lib)\<lparr>UpstreamStatus := 504, TimedOut := True\<rparr>;
          res = res\<lparr>UpstreamAddr :=
                  (case toString line ''upstream_addr'' of
                     Inl err \<Rightarrow> ''0.0.0.0'' | Inr s \<Rightarrow> s)\<rparr>
      in case toString line ''request'' of
           Inl err \<Rightarrow> Inl err
         | Inr reqStr \<Rightarrow>
        (case requestStringToReq lib reqStr of
           Inl err \<Rightarrow> Inl err
         | Inr req \<Rightarrow> Inr (res\<lparr>Request := Some req\<rparr>)))"

subsection \<open>NginxParser.Parse\<close>

definition Parse :: "'t stdlib \<Rightarrow> NginxParser \<Rightarrow> string \<Rightarrow> error + 't NginxResult" where
  "Parse lib p line =
     (case gonxParser p line of
        Inl err \<Rightarrow>
          (case gonxErrParser p line of
             Inl err \<Rightarrow> Inl err
           | Inr gonxEventErr \<Rightarrow> parsedErrLineToResult lib (typeifyParsedLine lib gonxEventErr))
      | Inr gonxEvent \<Rightarrow> parsedLineToResult lib (typeifyParsedLine lib gonxEvent))"

subsection \<open>The two templates and the gonx matcher\<close>

definition nginxIngressLogFormat :: string where
  "nginxIngressLogFormat = ''$remote_addr - $remote_user [$time_local] \"$request\" $status $body_bytes_sent \"$http_referer\" \"$http_user_agent\" $request_length $request_time [$proxy_upstream_name] [$proxy_alternative_upstream_name] $upstream_addr $upstream_response_length $upstream_response_time $upstream_status $req_id''"

definition nginxIngressErrorFormat :: string where
  "nginxIngressErrorFormat = ''$time_date $time_hms [$status] $code: $id $message, client: $upstream_addr, server: $proxy_upstream_name, request: \"$request\", upstream: \"$upstream_full\", host: \"$host\"''"

text \<open>
  Modelled from the spec: the Format Template Compiler (section 4.1), which in the
  program is the library github.com/honeycombio/gonx and is not under src/. A
  template is a sequence of literal bytes and named placeholders; a placeholder
  matches greedily up to the literal byte that follows it in the template, the
  literal bytes anchor the match, and the match starts at the beginning of the line.
  The theorems below hold for every pair of matchers; this one instantiates them.
\<close>

datatype segment = Lit char | Field string char

definition is_name_char :: "char \<Rightarrow> bool" where
  "is_name_char c =
     (let n = (of_char c :: nat)
      in (97 \<le> n \<and> n \<le> 122) \<or> (65 \<le> n \<and> n \<le> 90) \<or> (48 \<le> n \<and> n \<le> 57) \<or> n = 95)"

function segments :: "string \<Rightarrow> segment list" where
  "segments [] = []"
| "segments (c # cs) =
     (if c = CHR ''$'' then
        (case dropWhile is_name_char cs of
           [] \<Rightarrow> Lit c # segments cs
         | d # ds \<Rightarrow>
             if takeWhile is_name_char cs \<noteq> [] \<and> d \<noteq> CHR ''$'' \<and> d \<noteq> CHR 0x5C
             then Field (takeWhile is_name_char cs) d # segments (dropWhile is_name_char cs)
             else Lit c # segments cs)
      else Lit c # segments cs)"
  by pat_completeness auto
termination
proof (relation "measure length")
  fix c :: char and cs x21 x22
  assume "dropWhile is_name_char cs = x21 # x22"
  with length_dropWhile_le [of is_name_char cs]
  show "(dropWhile is_name_char cs, c # cs) \<in> measure length"
    by simp
qed auto

definition trim_spaces :: "segment list \<Rightarrow> segment list" where
  "trim_spaces segs =
     rev (dropWhile (\<lambda>s. s = Lit CHR '' '') (rev (dropWhile (\<lambda>s. s = Lit CHR '' '') segs)))"

definition gonx_NewParser :: "string \<Rightarrow> segment list" where
  "gonx_NewParser format = trim_spaces (segments (format @ '' ''))"

fun match_segments :: "segment list \<Rightarrow> string \<Rightarrow> fields \<Rightarrow> fields option" where
  "match_segments [] line acc = Some acc"
| "match_segments (Lit c # segs) line acc =
     (case line of
        [] \<Rightarrow> None
      | x # xs \<Rightarrow> if x = c then match_segments segs xs acc else None)"
| "match_segments (Field name d # segs) line acc =
     match_segments segs (dropWhile (\<lambda>x. x \<noteq> d) line)
       (acc(name \<mapsto> takeWhile (\<lambda>x. x \<noteq> d) line))"

definition ParseString :: "segment list \<Rightarrow> string \<Rightarrow> error + fields" where
  "ParseString segs line =
     (case match_segments segs line Map.empty of
        None \<Rightarrow> Inl (NoMatch line)
      | Some fs \<Rightarrow> Inr fs)"

text \<open>\<open>NginxParserFactory.Init\<close> followed by \<open>New\<close>.\<close>

definition New :: NginxParser where
  "New = \<lparr>gonxParser = ParseString (gonx_NewParser nginxIngressLogFormat),
          gonxErrParser = ParseString (gonx_NewParser nginxIngressErrorFormat)\<rparr>"

subsection \<open>An instance of the standard library\<close>

text \<open>
  Stand-ins for the three library functions on the inputs nginx writes, used to
  run the model on concrete lines: \<open>strconv.ParseFloat\<close> on plain decimals (an
  optional sign, digits with one point, no exponent; the value is the decimal
  itself, not rounded to a float64), \<open>time.Parse\<close> on a timestamp that ends with the
  layout's literal \<open> +0000\<close> (the time is kept as the text before it), and
  \<open>url.Parse\<close> on \<open>http://authority/path?query\<close> without fragment or escapes.
\<close>

definition decimal_ParseFloat :: "string \<Rightarrow> real option" where
  "decimal_ParseFloat s =
     (let neg = (s \<noteq> [] \<and> hd s = CHR ''-'');
          s0 = (if s \<noteq> [] \<and> (hd s = CHR ''+'' \<or> hd s = CHR ''-'') then tl s else s);
          ip = takeWhile (\<lambda>c. c \<noteq> CHR ''.'') s0;
          fp = drop 1 (dropWhile (\<lambda>c. c \<noteq> CHR ''.'') s0)
      in if ip @ fp = [] \<or> \<not> list_all is_digit (ip @ fp) then None
         else let v = real (digits_val (ip @ fp)) / 10 ^ length fp
              in Some (if neg then - v else v))"

definition suffix_time_Parse :: "string \<Rightarrow> string \<Rightarrow> error + string" where
  "suffix_time_Parse layout v =
     (let n = length v - 6
      in if 6 < length v \<and> drop n v = drop (length layout - 6) layout
         then Inr (take n v) else Inl (TimeError v))"

definition simple_url_Parse :: "string \<Rightarrow> error + URL" where
  "simple_url_Parse raw =
     (if take 7 raw = ''http://'' then
        (let rest = dropWhile (\<lambda>c. c \<noteq> CHR ''/'' \<and> c \<noteq> CHR ''?'') (drop 7 raw)
         in Inr \<lparr>url_Path = takeWhile (\<lambda>c. c \<noteq> CHR ''?'') rest,
                 url_RawQuery = drop 1 (dropWhile (\<lambda>c. c \<noteq> CHR ''?'') rest)\<rparr>)
      else Inl (UrlError raw))"

definition go_lib :: "string stdlib" where
  "go_lib = \<lparr>ParseFloat = decimal_ParseFloat, time_Parse = suffix_time_Parse,
             url_Parse = simple_url_Parse, time_zero = []\<rparr>"

section \<open>The metric collector (internal/metric)\<close>

datatype MetricKind = MetricKindLatency | MetricKindResponseCode

datatype GroupKind = GroupKindUpstreamIP | GroupKindPath

record 't LatencyMetric =
  latency :: real
  time :: 't

record 't LatencyMetricList =
  IP :: string
  Latencies :: "'t LatencyMetric list"

type_synonym ResponseMetric = "int64 \<rightharpoonup> go_uint"

record TimedOutMetric =
  Count :: go_int
  Total :: go_int

text \<open>
  A Go map field is \<open>None\<close> while it is \<open>nil\<close>. The fields \<open>group\<close> and \<open>metric\<close> of
  the struct are \<open>mc_group\<close> and \<open>mc_metric\<close> here.
\<close>

record 't MetricCollector =
  mc_group :: GroupKind
  mc_metric :: MetricKind
  latencyData :: "(string \<rightharpoonup> 't LatencyMetricList) option"
  responseData :: "(string \<rightharpoonup> ResponseMetric) option"
  timedOutData :: "(string \<rightharpoonup> TimedOutMetric) option"

definition NewMetricCollector :: "GroupKind \<Rightarrow> MetricKind \<Rightarrow> 't MetricCollector" where
  "NewMetricCollector g k =
     \<lparr>mc_group = g, mc_metric = k, latencyData = None, responseData = None,
      timedOutData = None\<rparr>"

text \<open>Reading a map field: a \<open>nil\<close> map reads as a map without entries.\<close>

definition entries :: "('k \<rightharpoonup> 'v) option \<Rightarrow> ('k \<rightharpoonup> 'v)" where
  "entries d = (case d of None \<Rightarrow> Map.empty | Some f \<Rightarrow> f)"

text \<open>
  \<open>AddLine\<close>: the \<open>result\<close> pointer is an option, as is its \<open>Request\<close> pointer. The
  buckets of \<open>latencyData\<close> are pointers held only by the map, so appending through
  the pointer is an update of the map entry.
\<close>

definition AddLine ::
  "'t MetricCollector \<Rightarrow> 't NginxResult option \<Rightarrow> string \<Rightarrow> 't MetricCollector" where
  "AddLine m result rawLine =
     (case result of
        None \<Rightarrow> m
      | Some res \<Rightarrow>
          (let ld = entries (latencyData m);
               td = entries (timedOutData m);
               rd = entries (responseData m);
               m1 = m\<lparr>latencyData := Some ld, timedOutData := Some td, responseData := Some rd\<rparr>
           in case Request res of
                None \<Rightarrow> m1
              | Some req \<Rightarrow>
                  (let grp = Path req;
                       ld' =
                         (if \<not> TimedOut res then
                            (let bucket =
                                   (case ld grp of
                                      None \<Rightarrow> \<lparr>IP = UpstreamAddr res, Latencies = []\<rparr>
                                    | Some b \<Rightarrow> b)
                             in ld(grp \<mapsto> bucket\<lparr>Latencies := Latencies bucket @
                                   [\<lparr>latency = RequestTime res, time = TimeLocal res\<rparr>]\<rparr>))
                          else ld);
                       respBucket =
                         (case rd grp of
                            None \<Rightarrow> [UpstreamStatus res \<mapsto> 1]
                          | Some rb \<Rightarrow>
                              (case rb (UpstreamStatus res) of
                                 None \<Rightarrow> rb(UpstreamStatus res \<mapsto> 1)
                               | Some n \<Rightarrow> rb(UpstreamStatus res \<mapsto> n + 1)));
                       rd' = rd(grp \<mapsto> respBucket);
                       timedOutMetric =
                         (case td grp of None \<Rightarrow> \<lparr>Count = 0, Total = 0\<rparr> | Some t \<Rightarrow> t);
                       timedOutMetric = timedOutMetric\<lparr>Total := Total timedOutMetric + 1\<rparr>;
                       timedOutMetric =
                         (if TimedOut res
                          then timedOutMetric\<lparr>Count := Count timedOutMetric + 1\<rparr>
                          else timedOutMetric);
                       td' = td(grp \<mapsto> timedOutMetric)
                   in m\<lparr>latencyData := Some ld', timedOutData := Some td',
                         responseData := Some rd'\<rparr>)))"

text \<open>The main loop of the program on records already parsed: one \<open>AddLine\<close> each.\<close>

definition AddLines :: "'t MetricCollector \<Rightarrow> 't NginxResult list \<Rightarrow> 't MetricCollector" where
  "AddLines m rs = foldl (\<lambda>m r. AddLine m (Some r) []) m rs"

subsection \<open>GetInfo\<close>

text \<open>
  Go leaves the order in which \<open>range\<close> visits a map unspecified, and it may differ
  from one \<open>range\<close> statement to the next. Each \<open>range\<close> over a map in \<open>GetInfo\<close>
  therefore takes the order of its visit as an input: the list of keys, which for
  a real run holds every key of the map once (\<open>valid_order\<close>).
\<close>

definition range_over :: "'k list \<Rightarrow> ('k \<rightharpoonup> 'v) \<Rightarrow> ('k \<times> 'v) list" where
  "range_over ks d = concat (map (\<lambda>k. case d k of None \<Rightarrow> [] | Some v \<Rightarrow> [(k, v)]) ks)"

definition valid_order :: "'k list \<Rightarrow> ('k \<rightharpoonup> 'v) \<Rightarrow> bool" where
  "valid_order ks d = (distinct ks \<and> set ks = dom d)"

record iteration =
  it_count :: "string list"
  it_response :: "string list"
  it_codes :: "string \<Rightarrow> int64 list"
  it_codes_print :: "string \<Rightarrow> int64 list"
  it_timeout :: "string list"
  it_latency :: "string list"

definition valid_iteration :: "'t MetricCollector \<Rightarrow> iteration \<Rightarrow> bool" where
  "valid_iteration m it =
     (valid_order (it_count it) (entries (latencyData m)) \<and>
      valid_order (it_response it) (entries (responseData m)) \<and>
      (\<forall>path bucket. entries (responseData m) path = Some bucket \<longrightarrow>
           valid_order (it_codes it path) bucket \<and> valid_order (it_codes_print it path) bucket) \<and>
      valid_order (it_timeout it) (entries (timedOutData m)) \<and>
      valid_order (it_latency it) (entries (latencyData m)))"

text \<open>
  What \<open>GetInfo\<close> prints, as the values handed to \<open>fmt\<close> in the order of printing:
  the count of tracked requests; for each group printed under the response status
  banner its path, its lines of code and count, and its total; for each group
  printed under the time out banner its path, \<open>Count\<close> and \<open>Total\<close> (the percentage is
  computed from these two); for each group of \<open>latencyData\<close> its path, \<open>totLatency\<close>
  and the number of samples (the mean is their quotient); and \<open>numOver2s\<close>, printed
  with its percentage of \<open>countReqs\<close>.
\<close>

record summary =
  countReqs :: go_int
  response_section :: "(string \<times> (int64 \<times> go_uint) list \<times> go_uint) list"
  timeout_section :: "(string \<times> go_int \<times> go_int) list"
  latency_section :: "(string \<times> real \<times> nat) list"
  numOver2s :: go_int

definition response_totals :: "(int64 \<times> go_uint) list \<Rightarrow> bool \<times> go_uint" where
  "response_totals cs =
     foldl (\<lambda>(has4XXOr5XX, totReqs) (code, num). (has4XXOr5XX \<or> 400 \<le> sint code, totReqs + num))
       (False, 0) cs"

definition count_over :: "go_int \<Rightarrow> 't LatencyMetric list \<Rightarrow> go_int" where
  "count_over n ls = foldl (\<lambda>n l. if latency l > 2000 then n + 1 else n) n ls"

definition GetInfo :: "'t MetricCollector \<Rightarrow> iteration \<Rightarrow> summary \<times> 't MetricCollector" where
  "GetInfo m it =
     (let cnt = foldl (\<lambda>n (path, bucket). n + of_nat (length (Latencies bucket))) 0
                  (range_over (it_count it) (entries (latencyData m)));
          resp = concat (map (\<lambda>(path, bucket).
                    (case response_totals (range_over (it_codes it path) bucket) of
                       (has4XXOr5XX, totReqs) \<Rightarrow>
                         if has4XXOr5XX \<and> totReqs > 100
                         then [(path, range_over (it_codes_print it path) bucket, totReqs)]
                         else []))
                  (range_over (it_response it) (entries (responseData m))));
          tos = concat (map (\<lambda>(path, timedOutMetric).
                    if 0 < sint (Count timedOutMetric) \<and> 100 < sint (Total timedOutMetric)
                    then [(path, Count timedOutMetric, Total timedOutMetric)] else [])
                  (range_over (it_timeout it) (entries (timedOutData m))));
          lat = map (\<lambda>(path, bucket).
                    (path, foldl (\<lambda>totLatency l. totLatency + latency l) 0 (Latencies bucket),
                     length (Latencies bucket)))
                  (range_over (it_latency it) (entries (latencyData m)));
          over = foldl (\<lambda>n (path, bucket). count_over n (Latencies bucket)) 0
                  (range_over (it_latency it) (entries (latencyData m)))
      in (\<lparr>countReqs = cnt, response_section = resp, timeout_section = tos,
           latency_section = lat, numOver2s = over\<rparr>, m))"

text \<open>
  Two reports are the same up to the order of visiting the maps: the same counts,
  and in each section the same entries, each as often, with the lines of code and
  count of an entry of the response section taken as a multiset.
\<close>



subsection \<open>Reading the aggregates of one group\<close>

text \<open>
  The total count of a response histogram, and what indexing the three maps with
  a group key gives in Go: the zero value when the key is absent.
\<close>

definition hist_total :: "ResponseMetric \<Rightarrow> go_uint" where
  "hist_total b = (\<Sum>c\<in>dom b. case b c of None \<Rightarrow> 0 | Some n \<Rightarrow> n)"

definition group_total :: "'t MetricCollector \<Rightarrow> string \<Rightarrow> go_uint" where
  "group_total m key =
     (case entries (responseData m) key of None \<Rightarrow> 0 | Some b \<Rightarrow> hist_total b)"

definition group_timeouts :: "'t MetricCollector \<Rightarrow> string \<Rightarrow> TimedOutMetric" where
  "group_timeouts m key =
     (case entries (timedOutData m) key of None \<Rightarrow> \<lparr>Count = 0, Total = 0\<rparr> | Some t \<Rightarrow> t)"

definition group_latencies :: "'t MetricCollector \<Rightarrow> string \<Rightarrow> 't LatencyMetric list" where
  "group_latencies m key =
     (case entries (latencyData m) key of None \<Rightarrow> [] | Some b \<Rightarrow> Latencies b)"

definition sample :: "'t NginxResult \<Rightarrow> 't LatencyMetric" where
  "sample r = \<lparr>latency = RequestTime r, time = TimeLocal r\<rparr>"

definition finite_buckets :: "'t MetricCollector \<Rightarrow> bool" where
  "finite_buckets m = (\<forall>key b. entries (responseData m) key = Some b \<longrightarrow> finite (dom b))"

section \<open>Inputs used to run the model\<close>

text \<open>A line of the access log, with a latency of 123 milliseconds.\<close>

definition access_line :: string where
  "access_line = ''10.1.2.3 - - [10/Oct/2023:13:55:36 +0000] \"GET /foo?x=1 HTTP/1.1\" 200 12 \"-\" \"curl\" 95 0.123 [web-80] [] 10.0.0.7:80 12 0.120 200 r1''"

text \<open>The same line with a latency of one whole second, written \<open>1\<close>.\<close>

definition whole_second_line :: string where
  "whole_second_line = ''10.1.2.3 - - [10/Oct/2023:13:55:36 +0000] \"GET /foo?x=1 HTTP/1.1\" 200 12 \"-\" \"curl\" 95 1 [web-80] [] 10.0.0.7:80 12 0.120 200 r1''"

text \<open>A line of the error log.\<close>

definition error_line :: string where
  "error_line = ''2023/10/10 13:55:36 [error] 7#7: *1 upstream timed out, client: 10.1.2.3, server: _, request: \"GET /foo?x=1 HTTP/1.1\", upstream: \"http://10.0.0.7:80/foo\", host: \"h\"''"

text \<open>
  A line that both templates match: for the access template its latency is the
  integer \<open>1\<close>, and the text of an error message sits between the brackets of its
  alternative upstream name.
\<close>

definition both_line :: string where
  "both_line = ''10.0.0.1 - [error] [t] \"GET /x HTTP/1.1\" 504 0 \"-\" \"-\" 0 1 [web-80] [7#7: *1 timeout, client: 10.0.0.1, server: _, request: \"GET /x HTTP/1.1\", upstream: \"http://10.0.0.2] 0 0 0\", host: \"h\"''"

text \<open>The fields that the templates cut out of these lines, and the records built from them.\<close>

definition access_line_fields :: fields where
  "access_line_fields =
     [''remote_addr'' \<mapsto> ''10.1.2.3'', ''remote_user'' \<mapsto> ''-'',
      ''time_local'' \<mapsto> ''10/Oct/2023:13:55:36 +0000'',
      ''request'' \<mapsto> ''GET /foo?x=1 HTTP/1.1'', ''status'' \<mapsto> ''200'',
      ''body_bytes_sent'' \<mapsto> ''12'', ''http_referer'' \<mapsto> ''-'',
      ''http_user_agent'' \<mapsto> ''curl'', ''request_length'' \<mapsto> ''95'',
      ''request_time'' \<mapsto> ''0.123'', ''proxy_upstream_name'' \<mapsto> ''web-80'',
      ''proxy_alternative_upstream_name'' \<mapsto> [], ''upstream_addr'' \<mapsto> ''10.0.0.7:80'',
      ''upstream_response_length'' \<mapsto> ''12'', ''upstream_response_time'' \<mapsto> ''0.120'',
      ''upstream_status'' \<mapsto> ''200'', ''req_id'' \<mapsto> ''r1'']"

definition access_line_record :: "string NginxResult" where
  "access_line_record =
     \<lparr>RemoteAddr = [], RemoteUser = [], UpstreamAddr = ''10.0.0.7:80'',
      TimeLocal = ''10/Oct/2023:13:55:36'',
      Request = Some \<lparr>Method = ''GET'', Path = ''/foo'', Query = ''x=1''\<rparr>,
      RequestTime = 123 / 1000, UpstreamStatus = 200, TimedOut = False\<rparr>"

definition whole_second_fields :: fields where
  "whole_second_fields =
     [''remote_addr'' \<mapsto> ''10.1.2.3'', ''remote_user'' \<mapsto> ''-'',
      ''time_local'' \<mapsto> ''10/Oct/2023:13:55:36 +0000'',
      ''request'' \<mapsto> ''GET /foo?x=1 HTTP/1.1'', ''status'' \<mapsto> ''200'',
      ''body_bytes_sent'' \<mapsto> ''12'', ''http_referer'' \<mapsto> ''-'',
      ''http_user_agent'' \<mapsto> ''curl'', ''request_length'' \<mapsto> ''95'',
      ''request_time'' \<mapsto> ''1'', ''proxy_upstream_name'' \<mapsto> ''web-80'',
      ''proxy_alternative_upstream_name'' \<mapsto> [], ''upstream_addr'' \<mapsto> ''10.0.0.7:80'',
      ''upstream_response_length'' \<mapsto> ''12'', ''upstream_response_time'' \<mapsto> ''0.120'',
      ''upstream_status'' \<mapsto> ''200'', ''req_id'' \<mapsto> ''r1'']"

definition error_line_fields :: fields where
  "error_line_fields =
     [''time_date'' \<mapsto> ''2023/10/10'', ''time_hms'' \<mapsto> ''13:55:36'',
      ''status'' \<mapsto> ''error'', ''code'' \<mapsto> ''7#7'', ''id'' \<mapsto> ''*1'',
      ''message'' \<mapsto> ''upstream timed out'', ''upstream_addr'' \<mapsto> ''10.1.2.3'',
      ''proxy_upstream_name'' \<mapsto> ''_'', ''request'' \<mapsto> ''GET /foo?x=1 HTTP/1.1'',
      ''upstream_full'' \<mapsto> ''http://10.0.0.7:80/foo'', ''host'' \<mapsto> ''h'']"

definition error_line_record :: "string NginxResult" where
  "error_line_record =
     \<lparr>RemoteAddr = [], RemoteUser = [], UpstreamAddr = ''10.1.2.3'', TimeLocal = [],
      Request = Some \<lparr>Method = ''GET'', Path = ''/foo'', Query = ''x=1''\<rparr>,
      RequestTime = 0, UpstreamStatus = 504, TimedOut = True\<rparr>"

definition both_line_access_fields :: fields where
  "both_line_access_fields =
     [''remote_addr'' \<mapsto> ''10.0.0.1'', ''remote_user'' \<mapsto> ''[error]'',
      ''time_local'' \<mapsto> ''t'', ''request'' \<mapsto> ''GET /x HTTP/1.1'', ''status'' \<mapsto> ''504'',
      ''body_bytes_sent'' \<mapsto> ''0'', ''http_referer'' \<mapsto> ''-'', ''http_user_agent'' \<mapsto> ''-'',
      ''request_length'' \<mapsto> ''0'', ''request_time'' \<mapsto> ''1'',
      ''proxy_upstream_name'' \<mapsto> ''web-80'',
      ''proxy_alternative_upstream_name'' \<mapsto>
        ''7#7: *1 timeout, client: 10.0.0.1, server: _, request: \"GET /x HTTP/1.1\", upstream: \"http://10.0.0.2'',
      ''upstream_addr'' \<mapsto> ''0'', ''upstream_response_length'' \<mapsto> ''0'',
      ''upstream_response_time'' \<mapsto> ''0\",'', ''upstream_status'' \<mapsto> ''host:'',
      ''req_id'' \<mapsto> ''\"h\"'']"

definition both_line_error_fields :: fields where
  "both_line_error_fields =
     [''time_date'' \<mapsto> ''10.0.0.1'', ''time_hms'' \<mapsto> ''-'', ''status'' \<mapsto> ''error'',
      ''code'' \<mapsto> ''[t] \"GET /x HTTP/1.1\" 504 0 \"-\" \"-\" 0 1 [web-80] [7#7'',
      ''id'' \<mapsto> ''*1'', ''message'' \<mapsto> ''timeout'', ''upstream_addr'' \<mapsto> ''10.0.0.1'',
      ''proxy_upstream_name'' \<mapsto> ''_'', ''request'' \<mapsto> ''GET /x HTTP/1.1'',
      ''upstream_full'' \<mapsto> ''http://10.0.0.2] 0 0 0'', ''host'' \<mapsto> ''h'']"

definition both_line_record :: "string NginxResult" where
  "both_line_record =
     \<lparr>RemoteAddr = [], RemoteUser = [], UpstreamAddr = ''10.0.0.1'', TimeLocal = [],
      Request = Some \<lparr>Method = ''GET'', Path = ''/x'', Query = []\<rparr>,
      RequestTime = 0, UpstreamStatus = 504, TimedOut = True\<rparr>"

text \<open>Two samples for one path: three seconds and 2500 seconds.\<close>

definition slow_record :: "string NginxResult" where
  "slow_record = access_line_record\<lparr>RequestTime := 3\<rparr>"

definition very_slow_record :: "string NginxResult" where
  "very_slow_record = access_line_record\<lparr>RequestTime := 2500\<rparr>"

definition foo_iteration :: iteration where
  "foo_iteration =
     \<lparr>it_count = [''/foo''], it_response = [''/foo''], it_codes = (\<lambda>p. [200]),
      it_codes_print = (\<lambda>p. [200]), it_timeout = [''/foo''], it_latency = [''/foo'']\<rparr>"

text \<open>A collector with one record for each of two paths, and two orders of visiting them.\<close>

definition bar_record :: "string NginxResult" where
  "bar_record =
     access_line_record\<lparr>Request := Some \<lparr>Method = ''GET'', Path = ''/bar'', Query = []\<rparr>\<rparr>"

definition two_groups :: "string MetricCollector" where
  "two_groups =
     AddLines (NewMetricCollector GroupKindPath MetricKindLatency) [access_line_record, bar_record]"

definition foo_bar_iteration :: iteration where
  "foo_bar_iteration =
     \<lparr>it_count = [''/foo'', ''/bar''], it_response = [''/foo'', ''/bar''],
      it_codes = (\<lambda>p. [200]), it_codes_print = (\<lambda>p. [200]),
      it_timeout = [''/foo'', ''/bar''], it_latency = [''/foo'', ''/bar'']\<rparr>"

definition bar_foo_iteration :: iteration where
  "bar_foo_iteration =
     \<lparr>it_count = [''/bar'', ''/foo''], it_response = [''/bar'', ''/foo''],
      it_codes = (\<lambda>p. [200]), it_codes_print = (\<lambda>p. [200]),
      it_timeout = [''/bar'', ''/foo''], it_latency = [''/bar'', ''/foo'']\<rparr>"

text \<open>
  The aggregates after 101 timed-out requests for \<open>/slow\<close> and 100 for \<open>/bar\<close>, and an
  order of visiting them.
\<close>

definition busy_collector :: "string MetricCollector" where
  "busy_collector =
     \<lparr>mc_group = GroupKindPath, mc_metric = MetricKindLatency,
      latencyData = Some Map.empty,
      responseData = Some [''/slow'' \<mapsto> [504 \<mapsto> 101], ''/bar'' \<mapsto> [504 \<mapsto> 100]],
      timedOutData = Some [''/slow'' \<mapsto> \<lparr>Count = 101, Total = 101\<rparr>,
                           ''/bar'' \<mapsto> \<lparr>Count = 100, Total = 100\<rparr>]\<rparr>"

definition busy_iteration :: iteration where
  "busy_iteration =
     \<lparr>it_count = [], it_response = [''/slow'', ''/bar''], it_codes = (\<lambda>p. [504]),
      it_codes_print = (\<lambda>p. [504]), it_timeout = [''/bar'', ''/slow''], it_latency = []\<rparr>"


definition normal_entry ::
  "string \<times> (int64 \<times> go_uint) list \<times> go_uint \<Rightarrow>
   string \<times> (int64 \<times> go_uint) multiset \<times> go_uint" where
  "normal_entry e = (fst e, mset (fst (snd e)), snd (snd e))"

definition same_report :: "summary \<Rightarrow> summary \<Rightarrow> bool" where
  "same_report s1 s2 =
     (countReqs s1 = countReqs s2 \<and> numOver2s s1 = numOver2s s2 \<and>
      mset (map normal_entry (response_section s1)) =
        mset (map normal_entry (response_section s2)) \<and>
      mset (timeout_section s1) = mset (timeout_section s2) \<and>
      mset (latency_section s1) = mset (latency_section s2))"

text \<open>
  A line of the access log for a request that the client closed before an upstream
  answered: nginx writes the dash for the latency and for the upstream fields.
\<close>

definition dash_line :: string where
  "dash_line = ''10.1.2.3 - - [10/Oct/2023:13:55:36 +0000] \"GET /foo?x=1 HTTP/1.1\" 499 0 \"-\" \"curl\" 95 - [web-80] [] - - - - r1''"

definition dash_line_fields :: fields where
  "dash_line_fields =
     [''remote_addr'' \<mapsto> ''10.1.2.3'', ''remote_user'' \<mapsto> ''-'',
      ''time_local'' \<mapsto> ''10/Oct/2023:13:55:36 +0000'',
      ''request'' \<mapsto> ''GET /foo?x=1 HTTP/1.1'', ''status'' \<mapsto> ''499'',
      ''body_bytes_sent'' \<mapsto> ''0'', ''http_referer'' \<mapsto> ''-'',
      ''http_user_agent'' \<mapsto> ''curl'', ''request_length'' \<mapsto> ''95'',
      ''request_time'' \<mapsto> ''-'', ''proxy_upstream_name'' \<mapsto> ''web-80'',
      ''proxy_alternative_upstream_name'' \<mapsto> [], ''upstream_addr'' \<mapsto> ''-'',
      ''upstream_response_length'' \<mapsto> ''-'', ''upstream_response_time'' \<mapsto> ''-'',
      ''upstream_status'' \<mapsto> ''-'', ''req_id'' \<mapsto> ''r1'']"

text \<open>
  \<open>Parse\<close> as section 7 of the specification words it (FieldCoercionFailure is
  treated as TemplateMismatch for retry purposes): a failure of the access path
  after a match falls back to the error template as a mismatch does. It is compared
  with \<open>Parse\<close> below.
\<close>

definition Parse_with_retry ::
  "'t stdlib \<Rightarrow> NginxParser \<Rightarrow> string \<Rightarrow> error + 't NginxResult" where
  "Parse_with_retry lib p line =
     (let fallback =
            (case gonxErrParser p line of
               Inl err \<Rightarrow> Inl err
             | Inr gonxEventErr \<Rightarrow>
                 parsedErrLineToResult lib (typeifyParsedLine lib gonxEventErr))
      in case gonxParser p line of
           Inl err \<Rightarrow> fallback
         | Inr gonxEvent \<Rightarrow>
             (case parsedLineToResult lib (typeifyParsedLine lib gonxEvent) of
                Inl err \<Rightarrow> fallback
              | Inr res \<Rightarrow> Inr res))"

section \<open>Properties of the parser\<close>

subsection \<open>Auxiliary facts\<close>

lemma is_digit_not_dot: "is_digit c \<Longrightarrow> c \<noteq> CHR ''.''"
  by (auto simp: is_digit_def)

lemma not_all_digits_dot: "CHR ''.'' \<in> set v \<Longrightarrow> \<not> list_all is_digit v"
  using is_digit_not_dot by (auto simp: list_all_iff)

lemma ParseInt_dot: "CHR ''.'' \<in> set v \<Longrightarrow> ParseInt v = None"
proof (cases v)
  case Nil
  then show ?thesis by (simp add: ParseInt_def)
next
  case (Cons c cs)
  assume d: "CHR ''.'' \<in> set v"
  let ?s0 = "if c = CHR ''+'' \<or> c = CHR ''-'' then cs else v"
  from d Cons have "CHR ''.'' \<in> set ?s0" by auto
  then have "\<not> list_all is_digit ?s0" by (rule not_all_digits_dot)
  then show ?thesis using Cons by (auto simp: ParseInt_def Let_def split: if_splits)
qed

lemma typeify_value_IntV:
  "typeify_value lib v = Some (IntV i) \<Longrightarrow> ParseInt v = Some i"
  by (auto simp: typeify_value_def split: if_splits option.splits)

lemma typeify_value_no_dot:
  "CHR ''.'' \<notin> set v \<Longrightarrow> typeify_value lib v \<noteq> Some (FloatV x)"
  by (auto simp: typeify_value_def split: if_splits option.splits)

lemma parsedLineToResult_Inr:
  assumes "parsedLineToResult lib tf = Inr r"
  shows "TimedOut r = False \<and> toInt64 tf ''upstream_status'' = Inr (UpstreamStatus r)
     \<and> toFloat64 tf ''request_time'' = Inr (RequestTime r)"
  using assms
  by (auto simp: parsedLineToResult_def NginxResult_zero_def Let_def split: sum.splits)

lemma toInt64_Inr: "toInt64 tf k = Inr i \<Longrightarrow> tf k = Some (IntV i)"
  by (auto simp: toInt64_def split: option.splits val.splits)

lemma toFloat64_Inl:
  "(\<And>x. tf k \<noteq> Some (FloatV x)) \<Longrightarrow> \<exists>e. toFloat64 tf k = Inl e"
  by (cases "tf k") (auto simp: toFloat64_def split: val.splits)

subsection \<open>The two templates on the lines\<close>

lemma error_template:
  "gonx_NewParser nginxIngressErrorFormat = [segment.Field ''time_date'' CHR '' '', Lit CHR '' '',
  segment.Field ''time_hms'' CHR '' '', Lit CHR '' '', Lit CHR ''['',
  segment.Field ''status'' CHR '']'', Lit CHR '']'', Lit CHR '' '',
  segment.Field ''code'' CHR '':'', Lit CHR '':'', Lit CHR '' '',
  segment.Field ''id'' CHR '' '', Lit CHR '' '',
  segment.Field ''message'' CHR '','', Lit CHR '','', Lit CHR '' '',
  Lit CHR ''c'', Lit CHR ''l'', Lit CHR ''i'', Lit CHR ''e'', Lit CHR ''n'',
  Lit CHR ''t'', Lit CHR '':'', Lit CHR '' '',
  segment.Field ''upstream_addr'' CHR '','', Lit CHR '','', Lit CHR '' '',
  Lit CHR ''s'', Lit CHR ''e'', Lit CHR ''r'', Lit CHR ''v'', Lit CHR ''e'',
  Lit CHR ''r'', Lit CHR '':'', Lit CHR '' '',
  segment.Field ''proxy_upstream_name'' CHR '','', Lit CHR '','',
  Lit CHR '' '', Lit CHR ''r'', Lit CHR ''e'', Lit CHR ''q'', Lit CHR ''u'',
  Lit CHR ''e'', Lit CHR ''s'', Lit CHR ''t'', Lit CHR '':'', Lit CHR '' '',
  Lit CHR 0x22, segment.Field ''request'' CHR 0x22, Lit CHR 0x22,
  Lit CHR '','', Lit CHR '' '', Lit CHR ''u'', Lit CHR ''p'', Lit CHR ''s'',
  Lit CHR ''t'', Lit CHR ''r'', Lit CHR ''e'', Lit CHR ''a'', Lit CHR ''m'',
  Lit CHR '':'', Lit CHR '' '', Lit CHR 0x22,
  segment.Field ''upstream_full'' CHR 0x22, Lit CHR 0x22, Lit CHR '','',
  Lit CHR '' '', Lit CHR ''h'', Lit CHR ''o'', Lit CHR ''s'', Lit CHR ''t'',
  Lit CHR '':'', Lit CHR '' '', Lit CHR 0x22,
  segment.Field ''host'' CHR 0x22, Lit CHR 0x22]"
  by (simp add: gonx_NewParser_def nginxIngressErrorFormat_def trim_spaces_def is_name_char_def)


lemma access_template:
  "gonx_NewParser nginxIngressLogFormat = 
 [segment.Field ''remote_addr'' CHR '' '', Lit CHR '' '', Lit CHR ''-'',
  Lit CHR '' '', segment.Field ''remote_user'' CHR '' '', Lit CHR '' '',
  Lit CHR ''['', segment.Field ''time_local'' CHR '']'', Lit CHR '']'',
  Lit CHR '' '', Lit CHR 0x22, segment.Field ''request'' CHR 0x22,
  Lit CHR 0x22, Lit CHR '' '', segment.Field ''status'' CHR '' '',
  Lit CHR '' '', segment.Field ''body_bytes_sent'' CHR '' '', Lit CHR '' '',
  Lit CHR 0x22, segment.Field ''http_referer'' CHR 0x22, Lit CHR 0x22,
  Lit CHR '' '', Lit CHR 0x22, segment.Field ''http_user_agent'' CHR 0x22,
  Lit CHR 0x22, Lit CHR '' '', segment.Field ''request_length'' CHR '' '',
  Lit CHR '' '', segment.Field ''request_time'' CHR '' '', Lit CHR '' '',
  Lit CHR ''['', segment.Field ''proxy_upstream_name'' CHR '']'',
  Lit CHR '']'', Lit CHR '' '', Lit CHR ''['',
  segment.Field ''proxy_alternative_upstream_name'' CHR '']'',
  Lit CHR '']'', Lit CHR '' '', segment.Field ''upstream_addr'' CHR '' '',
  Lit CHR '' '', segment.Field ''upstream_response_length'' CHR '' '',
  Lit CHR '' '', segment.Field ''upstream_response_time'' CHR '' '',
  Lit CHR '' '', segment.Field ''upstream_status'' CHR '' '', Lit CHR '' '',
  segment.Field ''req_id'' CHR '' '']"
  by (simp add: gonx_NewParser_def nginxIngressLogFormat_def trim_spaces_def is_name_char_def)

lemma access_line_match: "gonxParser New access_line = Inr access_line_fields"
  by (simp add: New_def ParseString_def access_template access_line_def access_line_fields_def)

lemma whole_second_line_match: "gonxParser New whole_second_line = Inr whole_second_fields"
  by (simp add: New_def ParseString_def access_template whole_second_line_def
      whole_second_fields_def)

lemma dash_line_match: "gonxParser New dash_line = Inr dash_line_fields"
  by (simp add: New_def ParseString_def access_template dash_line_def dash_line_fields_def)

lemma error_line_no_match: "gonxParser New error_line = Inl (NoMatch error_line)"
  by (simp add: New_def ParseString_def access_template error_line_def)

lemma error_line_match: "gonxErrParser New error_line = Inr error_line_fields"
  by (simp add: New_def ParseString_def error_template error_line_def error_line_fields_def)

lemma both_line_match: "gonxParser New both_line = Inr both_line_access_fields"
  by (simp add: New_def ParseString_def access_template both_line_def both_line_access_fields_def)

lemma both_line_error_match: "gonxErrParser New both_line = Inr both_line_error_fields"
  by (simp add: New_def ParseString_def error_template both_line_def both_line_error_fields_def)

lemmas run_defs = typeifyParsedLine_def typeify_value_def toString_def toFloat64_def toInt64_def
  requestStringToReq_def go_lib_def decimal_ParseFloat_def simple_url_Parse_def
  suffix_time_Parse_def nginxIngressTimeFormat_def NginxResult_zero_def is_digit_def
  ParseInt_def digits_val_def digit_val_def Let_def

lemma access_line_build:
  "parsedLineToResult go_lib (typeifyParsedLine go_lib access_line_fields) = Inr access_line_record"
  by (simp add: parsedLineToResult_def access_line_fields_def access_line_record_def run_defs)

lemma whole_second_build:
  "parsedLineToResult go_lib (typeifyParsedLine go_lib whole_second_fields) =
     Inl (NotFloat64 ''request_time'')"
  by (simp add: parsedLineToResult_def whole_second_fields_def run_defs)

lemma error_line_build:
  "parsedErrLineToResult go_lib (typeifyParsedLine go_lib error_line_fields) = Inr error_line_record"
  by (simp add: parsedErrLineToResult_def error_line_fields_def error_line_record_def run_defs)

lemma both_line_build:
  "parsedLineToResult go_lib (typeifyParsedLine go_lib both_line_access_fields) =
     Inl (NotFloat64 ''request_time'')"
  by (simp add: parsedLineToResult_def both_line_access_fields_def run_defs)

lemma both_line_error_build:
  "parsedErrLineToResult go_lib (typeifyParsedLine go_lib both_line_error_fields) = Inr both_line_record"
  by (simp add: parsedErrLineToResult_def both_line_error_fields_def both_line_record_def run_defs)

lemma access_line_Parse: "Parse go_lib New access_line = Inr access_line_record"
  by (simp add: Parse_def access_line_match access_line_build)

lemma error_line_Parse: "Parse go_lib New error_line = Inr error_line_record"
  by (simp add: Parse_def error_line_no_match error_line_match error_line_build)

subsection \<open>Parse\<close>

text \<open>
  Claim C1, as amended. When a line matches the access template and the record
  cannot be built from its fields (a required field is absent or has the wrong
  type), \<open>Parse\<close> returns that error at once: the error template is not tried, so
  the result is the same whatever the error template would make of the line.
  The fallback to the error template happens only when the access template itself
  does not match.
\<close>

theorem Parse_no_retry:
  assumes "gonxParser p line = Inr f"
    and "parsedLineToResult lib (typeifyParsedLine lib f) = Inl e"
  shows "Parse lib p line = Inl e \<and> Parse lib (p\<lparr>gonxErrParser := ep\<rparr>) line = Inl e"
  using assms by (simp add: Parse_def)

theorem Parse_no_retry_witness:
  "gonxParser New whole_second_line = Inr whole_second_fields \<and>
   parsedLineToResult go_lib (typeifyParsedLine go_lib whole_second_fields) =
     Inl (NotFloat64 ''request_time'') \<and>
   Parse go_lib New whole_second_line = Inl (NotFloat64 ''request_time'') \<and>
   Parse go_lib (New\<lparr>gonxErrParser := \<lambda>l. Inr error_line_fields\<rparr>) whole_second_line =
     Inl (NotFloat64 ''request_time'')"
  using Parse_no_retry [OF whole_second_line_match whole_second_build,
      of "\<lambda>l. Inr error_line_fields"]
    whole_second_line_match whole_second_build
  by simp

text \<open>
  The claim as the specification states it fails on \<open>both_line\<close>: the access template
  matches, the latency \<open>1\<close> is not a float, and \<open>Parse\<close> returns the error, although
  the error template matches the line too and the retry would have built a record.
\<close>

theorem Parse_with_retry_differs:
  "Parse go_lib New both_line = Inl (NotFloat64 ''request_time'') \<and>
   Parse_with_retry go_lib New both_line = Inr both_line_record"
  by (simp add: Parse_def Parse_with_retry_def both_line_match both_line_build
      both_line_error_match both_line_error_build)

text \<open>
  Claim C2. When the access template matches a line and \<open>Parse\<close> returns a record,
  \<open>TimedOut\<close> is false and \<open>UpstreamStatus\<close> is the integer that \<open>strconv.ParseInt\<close>
  reads from the raw text of the line's \<open>upstream_status\<close> field (the status field
  that the record builder reads; the template's \<open>status\<close> field is not consulted).
\<close>

theorem Parse_access_record:
  assumes "gonxParser p line = Inr f" and "Parse lib p line = Inr r"
  shows "TimedOut r = False \<and>
         (\<exists>v. f ''upstream_status'' = Some v \<and> ParseInt v = Some (UpstreamStatus r))"
proof -
  from assms have b: "parsedLineToResult lib (typeifyParsedLine lib f) = Inr r"
    by (simp add: Parse_def)
  from parsedLineToResult_Inr [OF b] toInt64_Inr
  have t: "TimedOut r = False"
    and u: "typeifyParsedLine lib f ''upstream_status'' = Some (IntV (UpstreamStatus r))"
    by blast+
  from u obtain v where v: "f ''upstream_status'' = Some v"
    and tv: "typeify_value lib v = Some (IntV (UpstreamStatus r))"
    by (auto simp: typeifyParsedLine_def split: option.splits)
  from tv have "ParseInt v = Some (UpstreamStatus r)" by (rule typeify_value_IntV)
  with t v show ?thesis by blast
qed

theorem Parse_access_record_witness:
  "gonxParser New access_line = Inr access_line_fields \<and>
   Parse go_lib New access_line = Inr access_line_record \<and>
   TimedOut access_line_record = False \<and>
   access_line_fields ''upstream_status'' = Some ''200'' \<and>
   ParseInt ''200'' = Some (UpstreamStatus access_line_record)"
  using Parse_access_record [OF access_line_match access_line_Parse]
    access_line_match access_line_Parse
  by (simp add: access_line_fields_def)

text \<open>
  Claim C3. When the access template does not match a line and \<open>Parse\<close> returns a
  record all the same (built from the error template's fields), \<open>TimedOut\<close> is true
  and \<open>UpstreamStatus\<close> is 504, whatever the fields of the line hold.
\<close>

theorem Parse_error_record:
  assumes "gonxParser p line = Inl e" and "Parse lib p line = Inr r"
  shows "TimedOut r = True \<and> UpstreamStatus r = 504"
  using assms
  by (auto simp: Parse_def parsedErrLineToResult_def Let_def split: sum.splits)

theorem Parse_error_record_witness:
  "gonxParser New error_line = Inl (NoMatch error_line) \<and>
   Parse go_lib New error_line = Inr error_line_record \<and>
   TimedOut error_line_record = True \<and> UpstreamStatus error_line_record = 504"
  using Parse_error_record [OF error_line_no_match error_line_Parse]
    error_line_no_match error_line_Parse
  by simp

subsection \<open>Type coercion and the request target\<close>

text \<open>
  Claim C4. For every raw field map and every field, type coercion follows the
  precedence of the specification: a value equal to \<open>-\<close> is omitted; otherwise a
  value with a decimal point that \<open>strconv.ParseFloat\<close> accepts becomes that float;
  otherwise a value that \<open>strconv.ParseInt\<close> accepts becomes that integer; any other
  value is kept as its string. So \<open>200\<close> becomes the integer 200 and \<open>-\<close> is
  omitted, \<open>0.123\<close> becomes the float that \<open>ParseFloat\<close> returns for it, and
  \<open>10.0.0.1\<close>, which \<open>ParseFloat\<close> rejects, stays a string.
\<close>

theorem typeify_precedence:
  "typeifyParsedLine lib pl k =
     (case pl k of
        None \<Rightarrow> None
      | Some v \<Rightarrow>
          if v = ''-'' then None
          else (case (if CHR ''.'' \<in> set v then ParseFloat lib v else None) of
                  Some x \<Rightarrow> Some (FloatV x)
                | None \<Rightarrow>
                    (case ParseInt v of
                       Some i \<Rightarrow> Some (IntV i)
                     | None \<Rightarrow> Some (StrV v)))) \<and>
   typeify_value lib ''200'' = Some (IntV 200) \<and>
   typeify_value lib ''-'' = None \<and>
   (ParseFloat lib ''0.123'' = Some x \<longrightarrow> typeify_value lib ''0.123'' = Some (FloatV x)) \<and>
   (ParseFloat lib ''10.0.0.1'' = None \<longrightarrow>
      typeify_value lib ''10.0.0.1'' = Some (StrV ''10.0.0.1''))"
proof -
  have "ParseInt ''200'' = Some 200"
    by (simp add: ParseInt_def is_digit_def digits_val_def digit_val_def)
  then have "typeify_value lib ''200'' = Some (IntV 200)"
    by (simp add: typeify_value_def)
  moreover have "typeify_value lib ''-'' = None"
    by (simp add: typeify_value_def)
  moreover have "ParseFloat lib ''0.123'' = Some x \<longrightarrow>
      typeify_value lib ''0.123'' = Some (FloatV x)"
    by (simp add: typeify_value_def)
  moreover have "ParseFloat lib ''10.0.0.1'' = None \<longrightarrow>
      typeify_value lib ''10.0.0.1'' = Some (StrV ''10.0.0.1'')"
    by (simp add: typeify_value_def)
  moreover have "typeifyParsedLine lib pl k =
     (case pl k of
        None \<Rightarrow> None
      | Some v \<Rightarrow>
          if v = ''-'' then None
          else (case (if CHR ''.'' \<in> set v then ParseFloat lib v else None) of
                  Some x \<Rightarrow> Some (FloatV x)
                | None \<Rightarrow>
                    (case ParseInt v of
                       Some i \<Rightarrow> Some (IntV i)
                     | None \<Rightarrow> Some (StrV v))))"
    by (auto simp: typeifyParsedLine_def typeify_value_def ParseInt_dot split: option.splits)
  ultimately show ?thesis by blast
qed

theorem typeify_precedence_witness:
  "ParseFloat go_lib ''0.123'' = Some (123 / 1000) \<and>
   ParseFloat go_lib ''10.0.0.1'' = None \<and>
   typeify_value go_lib ''0.123'' = Some (FloatV (123 / 1000)) \<and>
   typeify_value go_lib ''10.0.0.1'' = Some (StrV ''10.0.0.1'') \<and>
   typeifyParsedLine go_lib [''status'' \<mapsto> ''200'', ''remote_user'' \<mapsto> ''-''] ''status'' =
     Some (IntV 200) \<and>
   typeifyParsedLine go_lib [''status'' \<mapsto> ''200'', ''remote_user'' \<mapsto> ''-''] ''remote_user'' =
     None"
proof -
  have f1: "ParseFloat go_lib ''0.123'' = Some (123 / 1000)"
    by (simp add: go_lib_def decimal_ParseFloat_def is_digit_def digits_val_def digit_val_def)
  have f2: "ParseFloat go_lib ''10.0.0.1'' = None"
    by (simp add: go_lib_def decimal_ParseFloat_def is_digit_def)
  have i: "ParseInt ''200'' = Some 200"
    by (simp add: ParseInt_def is_digit_def digits_val_def digit_val_def)
  show ?thesis
    using typeify_precedence [of go_lib "[''status'' \<mapsto> ''200'', ''remote_user'' \<mapsto> ''-'']"
        "''status''" "123 / 1000"]
      typeify_precedence [of go_lib "[''status'' \<mapsto> ''200'', ''remote_user'' \<mapsto> ''-'']"
        "''remote_user''" "123 / 1000"]
      f1 f2 i
    by simp
qed

text \<open>
  Claim C5. \<open>requestStringToReq\<close> splits the request string at every space. With
  exactly three tokens the method is the first one and path and query are what
  \<open>url.Parse\<close> makes of the second one behind \<open>http://localhost\<close> (or its error);
  with any other number of tokens the string is rejected. So
  \<open>GET /foo/bar?x=1 HTTP/1.1\<close> gives the method \<open>GET\<close> with the path and query of
  \<open>http://localhost/foo/bar?x=1\<close>, and the two tokens of \<open>GET HTTP/1.1\<close> are an error.
\<close>

theorem requestStringToReq_tokens:
  "(Split str CHR '' '' = [m, target, proto] \<longrightarrow>
      requestStringToReq lib str =
        (case url_Parse lib (''http://localhost'' @ target) of
           Inl err \<Rightarrow> Inl err
         | Inr u \<Rightarrow> Inr \<lparr>Method = m, Path = url_Path u, Query = url_RawQuery u\<rparr>)) \<and>
   (length (Split str CHR '' '') \<noteq> 3 \<longrightarrow>
      requestStringToReq lib str = Inl (IncorrectFormat str)) \<and>
   (url_Parse lib ''http://localhost/foo/bar?x=1'' =
        Inr \<lparr>url_Path = ''/foo/bar'', url_RawQuery = ''x=1''\<rparr> \<longrightarrow>
      requestStringToReq lib ''GET /foo/bar?x=1 HTTP/1.1'' =
        Inr \<lparr>Method = ''GET'', Path = ''/foo/bar'', Query = ''x=1''\<rparr>) \<and>
   requestStringToReq lib ''GET HTTP/1.1'' = Inl (IncorrectFormat ''GET HTTP/1.1'')"
proof -
  have "Split str CHR '' '' = [m, target, proto] \<longrightarrow>
      requestStringToReq lib str =
        (case url_Parse lib (''http://localhost'' @ target) of
           Inl err \<Rightarrow> Inl err
         | Inr u \<Rightarrow> Inr \<lparr>Method = m, Path = url_Path u, Query = url_RawQuery u\<rparr>)"
    by (simp add: requestStringToReq_def)
  moreover have "length (Split str CHR '' '') \<noteq> 3 \<longrightarrow>
      requestStringToReq lib str = Inl (IncorrectFormat str)"
    by (auto simp: requestStringToReq_def split: list.splits)
  moreover have "url_Parse lib ''http://localhost/foo/bar?x=1'' =
        Inr \<lparr>url_Path = ''/foo/bar'', url_RawQuery = ''x=1''\<rparr> \<longrightarrow>
      requestStringToReq lib ''GET /foo/bar?x=1 HTTP/1.1'' =
        Inr \<lparr>Method = ''GET'', Path = ''/foo/bar'', Query = ''x=1''\<rparr>"
    by (simp add: requestStringToReq_def)
  moreover have "requestStringToReq lib ''GET HTTP/1.1'' = Inl (IncorrectFormat ''GET HTTP/1.1'')"
    by (simp add: requestStringToReq_def)
  ultimately show ?thesis by blast
qed

theorem requestStringToReq_tokens_witness:
  "Split ''GET /foo/bar?x=1 HTTP/1.1'' CHR '' '' = [''GET'', ''/foo/bar?x=1'', ''HTTP/1.1''] \<and>
   url_Parse go_lib ''http://localhost/foo/bar?x=1'' =
     Inr \<lparr>url_Path = ''/foo/bar'', url_RawQuery = ''x=1''\<rparr> \<and>
   requestStringToReq go_lib ''GET /foo/bar?x=1 HTTP/1.1'' =
     Inr \<lparr>Method = ''GET'', Path = ''/foo/bar'', Query = ''x=1''\<rparr> \<and>
   length (Split ''GET HTTP/1.1'' CHR '' '') \<noteq> 3 \<and>
   requestStringToReq go_lib ''GET HTTP/1.1'' = Inl (IncorrectFormat ''GET HTTP/1.1'')"
proof -
  have s: "Split ''GET /foo/bar?x=1 HTTP/1.1'' CHR '' '' = [''GET'', ''/foo/bar?x=1'', ''HTTP/1.1'']"
    by simp
  have u: "url_Parse go_lib ''http://localhost/foo/bar?x=1'' =
     Inr \<lparr>url_Path = ''/foo/bar'', url_RawQuery = ''x=1''\<rparr>"
    by (simp add: go_lib_def simple_url_Parse_def)
  have t: "length (Split ''GET HTTP/1.1'' CHR '' '') \<noteq> 3" by simp
  show ?thesis
    using requestStringToReq_tokens [of "''GET /foo/bar?x=1 HTTP/1.1''" "''GET''"
        "''/foo/bar?x=1''" "''HTTP/1.1''" go_lib] s u t
    by simp
qed

subsection \<open>Latencies without a decimal point\<close>

text \<open>
  Claim C10, as amended. When the access template matches a line and the raw text
  of its \<open>request_time\<close> field holds no decimal point, type coercion never stores a
  float for the field: it stores an integer when \<open>strconv.ParseInt\<close> accepts the
  text (a whole number such as \<open>0\<close> or \<open>1\<close>), nothing when the text is the dash, and
  the text itself otherwise. The float extraction of \<open>request_time\<close> then fails, and
  \<open>Parse\<close> returns that error although the line matched the access template.
\<close>

theorem Parse_integer_request_time:
  assumes "gonxParser p line = Inr f" and "f ''request_time'' = Some v"
    and "CHR ''.'' \<notin> set v"
  shows "typeifyParsedLine lib f ''request_time'' =
           (if v = ''-'' then None
            else (case ParseInt v of Some i \<Rightarrow> Some (IntV i) | None \<Rightarrow> Some (StrV v))) \<and>
         toFloat64 (typeifyParsedLine lib f) ''request_time'' =
           Inl (if v = ''-'' then FieldDoesNotExist ''request_time''
                else NotFloat64 ''request_time'') \<and>
         Parse lib p line =
           Inl (if v = ''-'' then FieldDoesNotExist ''request_time''
                else NotFloat64 ''request_time'')"
proof -
  have a: "typeifyParsedLine lib f ''request_time'' =
           (if v = ''-'' then None
            else (case ParseInt v of Some i \<Rightarrow> Some (IntV i) | None \<Rightarrow> Some (StrV v)))"
    using assms(2,3) by (simp add: typeifyParsedLine_def typeify_value_def)
  then have b: "toFloat64 (typeifyParsedLine lib f) ''request_time'' =
           Inl (if v = ''-'' then FieldDoesNotExist ''request_time''
                else NotFloat64 ''request_time'')"
    by (simp add: toFloat64_def split: option.splits)
  then have "Parse lib p line =
           Inl (if v = ''-'' then FieldDoesNotExist ''request_time''
                else NotFloat64 ''request_time'')"
    using assms(1) by (simp add: Parse_def parsedLineToResult_def Let_def)
  with a b show ?thesis by blast
qed

theorem Parse_integer_request_time_witness:
  "gonxParser New whole_second_line = Inr whole_second_fields \<and>
   whole_second_fields ''request_time'' = Some ''1'' \<and>
   CHR ''.'' \<notin> set ''1'' \<and>
   typeifyParsedLine go_lib whole_second_fields ''request_time'' = Some (IntV 1) \<and>
   toFloat64 (typeifyParsedLine go_lib whole_second_fields) ''request_time'' =
     Inl (NotFloat64 ''request_time'') \<and>
   Parse go_lib New whole_second_line = Inl (NotFloat64 ''request_time'')"
proof -
  have h2: "whole_second_fields ''request_time'' = Some ''1''"
    by (simp add: whole_second_fields_def)
  have h3: "CHR ''.'' \<notin> set ''1''" by simp
  have i: "ParseInt ''1'' = Some 1"
    by (simp add: ParseInt_def is_digit_def digits_val_def digit_val_def)
  show ?thesis
    using Parse_integer_request_time [OF whole_second_line_match h2 h3, of go_lib] h2 i
      whole_second_line_match
    by simp
qed

text \<open>
  The claim C10 as stated, an integer stored for every latency without a decimal
  point, fails on \<open>dash_line\<close>: its latency is the dash, nothing is stored for the
  field, and \<open>Parse\<close> fails because the field does not exist.
\<close>

theorem dash_request_time_not_integer:
  "gonxParser New dash_line = Inr dash_line_fields \<and>
   dash_line_fields ''request_time'' = Some ''-'' \<and>
   CHR ''.'' \<notin> set ''-'' \<and>
   typeifyParsedLine go_lib dash_line_fields ''request_time'' = None \<and>
   Parse go_lib New dash_line = Inl (FieldDoesNotExist ''request_time'')"
proof -
  have h2: "dash_line_fields ''request_time'' = Some ''-''"
    by (simp add: dash_line_fields_def)
  have t: "typeifyParsedLine go_lib dash_line_fields ''request_time'' = None"
    using h2 by (simp add: typeifyParsedLine_def typeify_value_def)
  then have "Parse go_lib New dash_line = Inl (FieldDoesNotExist ''request_time'')"
    by (simp add: Parse_def dash_line_match parsedLineToResult_def toFloat64_def Let_def)
  with dash_line_match h2 t show ?thesis by simp
qed

section \<open>Properties of the metric collector\<close>

subsection \<open>AddLine\<close>

lemma hist_total_upd:
  assumes "finite (dom b)"
  shows "hist_total (b(c \<mapsto> v)) + (case b c of None \<Rightarrow> 0 | Some n \<Rightarrow> n) = v + hist_total b"
proof -
  let ?f = "\<lambda>b c. case b c of None \<Rightarrow> (0::go_uint) | Some n \<Rightarrow> n"
  have fin: "finite (dom b - {c})" using assms by simp
  have "hist_total (b(c \<mapsto> v)) = sum (?f (b(c \<mapsto> v))) (insert c (dom b - {c}))"
    by (simp add: hist_total_def)
  also have "\<dots> = v + sum (?f (b(c \<mapsto> v))) (dom b - {c})"
    using fin by (subst sum.insert) auto
  also have "sum (?f (b(c \<mapsto> v))) (dom b - {c}) = sum (?f b) (dom b - {c})"
    by (rule sum.cong) auto
  finally have l: "hist_total (b(c \<mapsto> v)) = v + sum (?f b) (dom b - {c})" .
  have r: "hist_total b = ?f b c + sum (?f b) (dom b - {c})"
  proof (cases "c \<in> dom b")
    case True
    then show ?thesis using assms by (simp add: hist_total_def sum.remove)
  next
    case False
    then have "dom b - {c} = dom b" and "b c = None" by auto
    then show ?thesis by (simp add: hist_total_def)
  qed
  show ?thesis using l r by (simp add: algebra_simps)
qed

lemma hist_total_single: "hist_total [c \<mapsto> v] = v"
  by (simp add: hist_total_def)

lemma AddLine_step:
  assumes "Request r = Some req" and "Path req = key" and "finite_buckets m"
  shows "group_total (AddLine m (Some r) raw) key = group_total m key + 1"
    and "finite_buckets (AddLine m (Some r) raw)"
    and "Total (group_timeouts (AddLine m (Some r) raw) key) = Total (group_timeouts m key) + 1"
    and "Count (group_timeouts (AddLine m (Some r) raw) key) =
           Count (group_timeouts m key) + (if TimedOut r then 1 else 0)"
    and "group_latencies (AddLine m (Some r) raw) key =
           group_latencies m key @ (if TimedOut r then [] else [sample r])"
proof -
  show "group_total (AddLine m (Some r) raw) key = group_total m key + 1"
  proof (cases "entries (responseData m) key")
    case None
    then show ?thesis using assms(1,2)
      by (simp add: AddLine_def group_total_def entries_def Let_def hist_total_single)
  next
    case (Some b)
    then have fin: "finite (dom b)" using assms(3) by (auto simp: finite_buckets_def)
    show ?thesis
    proof (cases "b (UpstreamStatus r)")
      case None
      with hist_total_upd [OF fin, of "UpstreamStatus r" 1] Some assms(1,2)
      show ?thesis by (simp add: AddLine_def group_total_def entries_def Let_def)
    next
      case (Some n)
      with hist_total_upd [OF fin, of "UpstreamStatus r" "n + 1"] \<open>entries (responseData m) key = Some b\<close> assms(1,2)
      show ?thesis by (simp add: AddLine_def group_total_def entries_def Let_def)
    qed
  qed
  show "finite_buckets (AddLine m (Some r) raw)"
    using assms
    by (auto simp: AddLine_def finite_buckets_def entries_def Let_def
        split: option.splits if_splits)
  show "Total (group_timeouts (AddLine m (Some r) raw) key) = Total (group_timeouts m key) + 1"
    using assms(1,2)
    by (simp add: AddLine_def group_timeouts_def entries_def Let_def split: option.splits)
  show "Count (group_timeouts (AddLine m (Some r) raw) key) =
           Count (group_timeouts m key) + (if TimedOut r then 1 else 0)"
    using assms(1,2)
    by (simp add: AddLine_def group_timeouts_def entries_def Let_def split: option.splits)
  show "group_latencies (AddLine m (Some r) raw) key =
           group_latencies m key @ (if TimedOut r then [] else [sample r])"
    using assms(1,2)
    by (simp add: AddLine_def group_latencies_def entries_def Let_def sample_def
        split: option.splits)
qed


lemma unat_count: "n < 2 ^ 63 \<Longrightarrow> unat (of_nat n :: 64 word) = n"
  by (simp add: unat_of_nat)

lemma sint_count: "n < 2 ^ 63 \<Longrightarrow> sint (of_nat n :: 64 word) = int n"
  by (simp add: signed_of_nat signed_take_bit_int_eq_self)

lemma AddLines_Cons: "AddLines m (r # rs) = AddLines (AddLine m (Some r) []) rs"
  by (simp add: AddLines_def)

lemma AddLines_accumulate:
  assumes "\<forall>r\<in>set rs. \<exists>req. Request r = Some req \<and> Path req = key"
    and "finite_buckets m"
  shows "group_total (AddLines m rs) key = group_total m key + of_nat (length rs) \<and>
         Total (group_timeouts (AddLines m rs) key) =
           Total (group_timeouts m key) + of_nat (length rs) \<and>
         Count (group_timeouts (AddLines m rs) key) =
           Count (group_timeouts m key) + of_nat (length (filter TimedOut rs)) \<and>
         group_latencies (AddLines m rs) key =
           group_latencies m key @ map sample (filter (\<lambda>r. \<not> TimedOut r) rs)"
  using assms
proof (induction rs arbitrary: m)
  case Nil
  then show ?case by (simp add: AddLines_def)
next
  case (Cons r rs)
  from Cons.prems(1) obtain req where req: "Request r = Some req" "Path req = key"
    by auto
  let ?m = "AddLine m (Some r) []"
  note step = AddLine_step [OF req Cons.prems(2), of "[]"]
  from Cons.prems(1) have rest: "\<forall>r\<in>set rs. \<exists>req. Request r = Some req \<and> Path req = key"
    by simp
  from Cons.IH [OF rest step(2)] step(1,3,4,5)
  show ?case by (simp add: AddLines_Cons)
qed

lemma NewMetricCollector_empty:
  "group_total (NewMetricCollector g k) key = 0"
  "group_timeouts (NewMetricCollector g k) key = \<lparr>Count = 0, Total = 0\<rparr>"
  "group_latencies (NewMetricCollector g k) key = []"
  "finite_buckets (NewMetricCollector g k)"
  by (simp_all add: NewMetricCollector_def group_total_def group_timeouts_def
      group_latencies_def finite_buckets_def entries_def)

text \<open>
  Claim C6. Records with a request that share one group key are added to a new
  collector. Afterwards the counts of the group's response histogram add up to
  the number of records, \<open>Total\<close> of its timeout entry is the number of records and
  \<open>Count\<close> the number of timed-out ones, and its latency list holds the samples of
  the records that did not time out, in their order. The counters are 64-bit
  machine integers: the equalities hold as such, and as plain numbers below
  \<open>2^63\<close> records.
\<close>

theorem AddLines_same_group:
  assumes "\<forall>r\<in>set rs. \<exists>req. Request r = Some req \<and> Path req = key"
  shows "group_total (AddLines (NewMetricCollector g k) rs) key = of_nat (length rs) \<and>
         Total (group_timeouts (AddLines (NewMetricCollector g k) rs) key) = of_nat (length rs) \<and>
         Count (group_timeouts (AddLines (NewMetricCollector g k) rs) key) =
           of_nat (length (filter TimedOut rs)) \<and>
         group_latencies (AddLines (NewMetricCollector g k) rs) key =
           map sample (filter (\<lambda>r. \<not> TimedOut r) rs) \<and>
         (length rs < 2 ^ 63 \<longrightarrow>
            unat (group_total (AddLines (NewMetricCollector g k) rs) key) = length rs \<and>
            sint (Total (group_timeouts (AddLines (NewMetricCollector g k) rs) key)) =
              int (length rs) \<and>
            sint (Count (group_timeouts (AddLines (NewMetricCollector g k) rs) key)) =
              int (length (filter TimedOut rs)))"
proof -
  let ?m = "AddLines (NewMetricCollector g k) rs"
  from AddLines_accumulate [OF assms NewMetricCollector_empty(4), of g k]
  have w: "group_total ?m key = of_nat (length rs)"
    "Total (group_timeouts ?m key) = of_nat (length rs)"
    "Count (group_timeouts ?m key) = of_nat (length (filter TimedOut rs))"
    "group_latencies ?m key = map sample (filter (\<lambda>r. \<not> TimedOut r) rs)"
    by (simp_all add: NewMetricCollector_empty)
  have "length (filter TimedOut rs) \<le> length rs" by simp
  then have "length rs < 2 ^ 63 \<Longrightarrow> length (filter TimedOut rs) < 2 ^ 63"
    by (rule le_less_trans)
  with w show ?thesis by (simp add: unat_count sint_count)
qed

theorem AddLines_same_group_witness:
  "Request access_line_record = Some \<lparr>Method = ''GET'', Path = ''/foo'', Query = ''x=1''\<rparr> \<and>
   Request error_line_record = Some \<lparr>Method = ''GET'', Path = ''/foo'', Query = ''x=1''\<rparr> \<and>
   group_total (AddLines (NewMetricCollector GroupKindPath MetricKindLatency)
      [access_line_record, error_line_record, access_line_record]) ''/foo'' = 3 \<and>
   group_timeouts (AddLines (NewMetricCollector GroupKindPath MetricKindLatency)
      [access_line_record, error_line_record, access_line_record]) ''/foo'' =
     \<lparr>Count = 1, Total = 3\<rparr> \<and>
   group_latencies (AddLines (NewMetricCollector GroupKindPath MetricKindLatency)
      [access_line_record, error_line_record, access_line_record]) ''/foo'' =
     [sample access_line_record, sample access_line_record]"
proof -
  have h: "\<forall>r\<in>set [access_line_record, error_line_record, access_line_record].
      \<exists>req. Request r = Some req \<and> Path req = ''/foo''"
    by (simp add: access_line_record_def error_line_record_def)
  have t: "TimedOut error_line_record" "\<not> TimedOut access_line_record"
    by (simp_all add: access_line_record_def error_line_record_def)
  have q: "Request access_line_record =
      Some \<lparr>Method = ''GET'', Path = ''/foo'', Query = ''x=1''\<rparr>"
    "Request error_line_record = Some \<lparr>Method = ''GET'', Path = ''/foo'', Query = ''x=1''\<rparr>"
    by (simp_all add: access_line_record_def error_line_record_def)
  show ?thesis
    using AddLines_same_group [OF h, of GroupKindPath MetricKindLatency] t q
    by (cases "group_timeouts (AddLines (NewMetricCollector GroupKindPath MetricKindLatency)
      [access_line_record, error_line_record, access_line_record]) ''/foo''") simp
qed

subsection \<open>GetInfo\<close>

lemma sum_list_mset_cong:
  fixes f :: "'a \<Rightarrow> 'b::comm_monoid_add"
  assumes "mset xs = mset ys"
  shows "sum_list (map f xs) = sum_list (map f ys)"
proof -
  have "sum_list (map f xs) = sum_mset (image_mset f (mset xs))"
    by (simp flip: sum_mset_sum_list)
  also have "\<dots> = sum_mset (image_mset f (mset ys))" using assms by simp
  also have "\<dots> = sum_list (map f ys)" by (simp flip: sum_mset_sum_list)
  finally show ?thesis .
qed

lemma mset_concat_map_cong:
  assumes "mset xs = mset ys" and "\<And>x. x \<in> set xs \<Longrightarrow> f x = g x"
  shows "mset (concat (map f xs)) = mset (concat (map g ys))"
proof -
  have "mset (concat (map f xs)) = sum_list (map (\<lambda>x. mset (f x)) xs)"
    by (simp add: mset_concat comp_def)
  also have "\<dots> = sum_list (map (\<lambda>x. mset (g x)) xs)"
    using assms(2) by (simp cong: map_cong)
  also have "\<dots> = sum_list (map (\<lambda>x. mset (g x)) ys)"
    using assms(1) by (rule sum_list_mset_cong)
  also have "\<dots> = mset (concat (map g ys))"
    by (simp add: mset_concat comp_def)
  finally show ?thesis .
qed

lemma valid_order_mset: "valid_order ks d \<Longrightarrow> valid_order ks' d \<Longrightarrow> mset ks = mset ks'"
  using set_eq_iff_mset_eq_distinct [of ks ks'] by (auto simp: valid_order_def)

lemma mset_range_over: "mset ks = mset ks' \<Longrightarrow> mset (range_over ks d) = mset (range_over ks' d)"
  unfolding range_over_def by (rule mset_concat_map_cong) simp_all

lemma set_range_over: "set (range_over ks d) = {(k, v). k \<in> set ks \<and> d k = Some v}"
  by (auto simp: range_over_def split: option.splits)

lemma range_over_valid:
  "valid_order ks d \<Longrightarrow> (k, v) \<in> set (range_over ks d) \<longleftrightarrow> d k = Some v"
  by (auto simp: set_range_over valid_order_def)

lemma foldl_add:
  fixes f :: "'a \<Rightarrow> 'b::comm_monoid_add"
  shows "foldl (\<lambda>n x. n + f x) a xs = a + sum_list (map f xs)"
  by (induction xs arbitrary: a) (simp_all add: add.assoc)

lemma response_totals_eq:
  "response_totals cs = ((\<exists>(code, num)\<in>set cs. 400 \<le> sint code), sum_list (map snd cs))"
proof -
  have "foldl (\<lambda>(has4XXOr5XX, totReqs) (code, num).
            (has4XXOr5XX \<or> 400 \<le> sint code, totReqs + num)) (h, t) cs =
        (h \<or> (\<exists>(code, num)\<in>set cs. 400 \<le> sint code), t + sum_list (map snd cs))"
    for h :: bool and t :: go_uint
    by (induction cs arbitrary: h t) (auto simp: add.assoc)
  then show ?thesis by (simp add: response_totals_def)
qed

lemma sum_range_over:
  "sum_list (map snd (range_over ks b)) =
     sum_list (map (\<lambda>c. case b c of None \<Rightarrow> (0::go_uint) | Some n \<Rightarrow> n) ks)"
  by (induction ks) (auto simp: range_over_def split: option.splits)

lemma response_totals_valid:
  assumes "valid_order ks b"
  shows "response_totals (range_over ks b) = ((\<exists>c\<in>dom b. 400 \<le> sint c), hist_total b)"
proof -
  have "sum_list (map snd (range_over ks b)) = hist_total b"
    using assms
    by (simp add: sum_range_over hist_total_def valid_order_def sum_list_distinct_conv_sum_set)
  moreover have "(\<exists>(code, num)\<in>set (range_over ks b). 400 \<le> sint code) \<longleftrightarrow>
      (\<exists>c\<in>dom b. 400 \<le> sint c)"
    using assms by (auto simp: set_range_over valid_order_def)
  ultimately show ?thesis by (simp add: response_totals_eq)
qed


lemma fst_concat_map_if:
  "a \<in> fst ` set (concat (map (\<lambda>y. if P y then [f y] else []) ys)) \<longleftrightarrow>
     (\<exists>y\<in>set ys. P y \<and> a = fst (f y))"
  by (induction ys) auto

lemma bex_pairs:
  "(\<exists>x\<in>S. Q (fst x) (snd x) \<and> a = fst x) \<longleftrightarrow> (\<exists>b. (a, b) \<in> S \<and> Q a b)"
  by force

lemma response_section_eq:
  "response_section (fst (GetInfo m it)) =
     concat (map (\<lambda>x.
         if fst (response_totals (range_over (it_codes it (fst x)) (snd x))) \<and>
            100 < snd (response_totals (range_over (it_codes it (fst x)) (snd x)))
         then [(fst x, range_over (it_codes_print it (fst x)) (snd x),
                snd (response_totals (range_over (it_codes it (fst x)) (snd x))))]
         else [])
       (range_over (it_response it) (entries (responseData m))))"
  by (simp add: GetInfo_def Let_def split_def)

lemma timeout_section_eq:
  "timeout_section (fst (GetInfo m it)) =
     concat (map (\<lambda>x.
         if 0 < sint (Count (snd x)) \<and> 100 < sint (Total (snd x))
         then [(fst x, Count (snd x), Total (snd x))] else [])
       (range_over (it_timeout it) (entries (timedOutData m))))"
  by (simp add: GetInfo_def Let_def split_def)

lemma response_section_member:
  assumes "valid_iteration m it"
  shows "path \<in> fst ` set (response_section (fst (GetInfo m it))) \<longleftrightarrow>
     (\<exists>b. entries (responseData m) path = Some b \<and> (\<exists>c\<in>dom b. 400 \<le> sint c) \<and>
          100 < hist_total b)"
proof -
  let ?rd = "entries (responseData m)"
  have ord: "valid_order (it_response it) ?rd"
    and codes: "\<And>p b. ?rd p = Some b \<Longrightarrow> valid_order (it_codes it p) b"
    using assms by (auto simp: valid_iteration_def)
  have "path \<in> fst ` set (response_section (fst (GetInfo m it))) \<longleftrightarrow>
      (\<exists>b. (path, b) \<in> set (range_over (it_response it) ?rd) \<and>
           fst (response_totals (range_over (it_codes it path) b)) \<and>
           100 < snd (response_totals (range_over (it_codes it path) b)))"
    unfolding response_section_eq fst_concat_map_if
    using bex_pairs [of "set (range_over (it_response it) ?rd)"
        "\<lambda>p b. fst (response_totals (range_over (it_codes it p) b)) \<and>
               100 < snd (response_totals (range_over (it_codes it p) b))" path]
    by simp
  also have "\<dots> \<longleftrightarrow> (\<exists>b. ?rd path = Some b \<and> (\<exists>c\<in>dom b. 400 \<le> sint c) \<and> 100 < hist_total b)"
    by (simp add: range_over_valid [OF ord] response_totals_valid [OF codes] cong: conj_cong)
  finally show ?thesis .
qed

lemma timeout_section_member:
  assumes "valid_iteration m it"
  shows "path \<in> fst ` set (timeout_section (fst (GetInfo m it))) \<longleftrightarrow>
     (\<exists>t. entries (timedOutData m) path = Some t \<and> 0 < sint (Count t) \<and> 100 < sint (Total t))"
proof -
  let ?td = "entries (timedOutData m)"
  have ord: "valid_order (it_timeout it) ?td"
    using assms by (auto simp: valid_iteration_def)
  have "path \<in> fst ` set (timeout_section (fst (GetInfo m it))) \<longleftrightarrow>
      (\<exists>t. (path, t) \<in> set (range_over (it_timeout it) ?td) \<and>
           0 < sint (Count t) \<and> 100 < sint (Total t))"
    unfolding timeout_section_eq fst_concat_map_if
    using bex_pairs [of "set (range_over (it_timeout it) ?td)"
        "\<lambda>p t. 0 < sint (Count t) \<and> 100 < sint (Total t)" path]
    by simp
  also have "\<dots> \<longleftrightarrow> (\<exists>t. ?td path = Some t \<and> 0 < sint (Count t) \<and> 100 < sint (Total t))"
    by (simp add: range_over_valid [OF ord])
  finally show ?thesis .
qed

text \<open>
  Claim C8. Whatever the order in which the maps are visited, a group is listed
  under the response status banner exactly when its histogram holds a status of
  at least 400 and its counts add up to more than 100, and under the time out
  banner exactly when its \<open>Count\<close> is positive and its \<open>Total\<close> is more than 100. So a
  group with at most 100 requests is listed in neither section, whatever its
  statuses and timeouts.
\<close>

theorem GetInfo_sections:
  assumes "valid_iteration m it"
  shows "(path \<in> fst ` set (response_section (fst (GetInfo m it))) \<longleftrightarrow>
            (\<exists>b. entries (responseData m) path = Some b \<and> (\<exists>c\<in>dom b. 400 \<le> sint c) \<and>
                 100 < hist_total b)) \<and>
         (path \<in> fst ` set (timeout_section (fst (GetInfo m it))) \<longleftrightarrow>
            (\<exists>t. entries (timedOutData m) path = Some t \<and> 0 < sint (Count t) \<and>
                 100 < sint (Total t))) \<and>
         (group_total m path \<le> 100 \<longrightarrow>
            path \<notin> fst ` set (response_section (fst (GetInfo m it)))) \<and>
         (sint (Total (group_timeouts m path)) \<le> 100 \<longrightarrow>
            path \<notin> fst ` set (timeout_section (fst (GetInfo m it))))"
proof -
  note r = response_section_member [OF assms, of path]
  note t = timeout_section_member [OF assms, of path]
  have "group_total m path \<le> 100 \<longrightarrow>
      path \<notin> fst ` set (response_section (fst (GetInfo m it)))"
    unfolding r by (auto simp: group_total_def)
  moreover have "sint (Total (group_timeouts m path)) \<le> 100 \<longrightarrow>
      path \<notin> fst ` set (timeout_section (fst (GetInfo m it)))"
    unfolding t by (auto simp: group_timeouts_def)
  ultimately show ?thesis using r t by blast
qed


lemma count_over_add: "count_over n ls = n + count_over 0 ls"
proof -
  have "foldl (\<lambda>n l. if latency l > 2000 then n + 1 else n) n ls =
        n + foldl (\<lambda>n l. if latency l > 2000 then n + 1 else n) (0::go_int) ls"
    for n :: go_int and ls :: "'a LatencyMetric list"
  proof (induction ls arbitrary: n)
    case Nil
    show ?case by simp
  next
    case (Cons l ls)
    show ?case using Cons.IH [of "n + 1"] Cons.IH [of n] Cons.IH [of 1] Cons.IH [of 0]
      by (simp add: add.assoc)
  qed
  then show ?thesis unfolding count_over_def .
qed

lemma countReqs_eq:
  "countReqs (fst (GetInfo m it)) =
     sum_list (map (\<lambda>x. of_nat (length (Latencies (snd x))))
       (range_over (it_count it) (entries (latencyData m))))"
  by (simp add: GetInfo_def Let_def split_def foldl_add)

lemma numOver2s_eq:
  "numOver2s (fst (GetInfo m it)) =
     sum_list (map (\<lambda>x. count_over 0 (Latencies (snd x)))
       (range_over (it_latency it) (entries (latencyData m))))"
proof -
  have "foldl (\<lambda>n x. count_over n (Latencies (snd x))) a xs =
        foldl (\<lambda>n x. n + count_over 0 (Latencies (snd x))) a xs"
    for a :: go_int and xs :: "(string \<times> 'a LatencyMetricList) list"
    by (induction xs arbitrary: a) (simp_all add: count_over_add [symmetric])
  then show ?thesis by (simp add: GetInfo_def Let_def split_def foldl_add)
qed

lemma latency_section_eq:
  "latency_section (fst (GetInfo m it)) =
     map (\<lambda>x. (fst x, foldl (\<lambda>totLatency l. totLatency + latency l) 0 (Latencies (snd x)),
               length (Latencies (snd x))))
       (range_over (it_latency it) (entries (latencyData m)))"
  by (simp add: GetInfo_def Let_def split_def)

lemma GetInfo_state: "snd (GetInfo m it) = m"
  by (simp add: GetInfo_def Let_def)

lemma same_report_valid:
  assumes v1: "valid_iteration m it1" and v2: "valid_iteration m it2"
  shows "same_report (fst (GetInfo m it1)) (fst (GetInfo m it2))"
proof -
  let ?ld = "entries (latencyData m)" and ?rd = "entries (responseData m)"
    and ?td = "entries (timedOutData m)"
  have c: "mset (range_over (it_count it1) ?ld) = mset (range_over (it_count it2) ?ld)"
    and l: "mset (range_over (it_latency it1) ?ld) = mset (range_over (it_latency it2) ?ld)"
    and t: "mset (range_over (it_timeout it1) ?td) = mset (range_over (it_timeout it2) ?td)"
    and r: "mset (range_over (it_response it1) ?rd) = mset (range_over (it_response it2) ?rd)"
    using v1 v2 by (auto simp: valid_iteration_def intro!: mset_range_over valid_order_mset)
  have 1: "countReqs (fst (GetInfo m it1)) = countReqs (fst (GetInfo m it2))"
    unfolding countReqs_eq using c by (rule sum_list_mset_cong)
  have 2: "numOver2s (fst (GetInfo m it1)) = numOver2s (fst (GetInfo m it2))"
    unfolding numOver2s_eq using l by (rule sum_list_mset_cong)
  have 3: "mset (latency_section (fst (GetInfo m it1))) =
      mset (latency_section (fst (GetInfo m it2)))"
    unfolding latency_section_eq using l by simp
  have 4: "mset (timeout_section (fst (GetInfo m it1))) =
      mset (timeout_section (fst (GetInfo m it2)))"
    unfolding timeout_section_eq using t by (rule mset_concat_map_cong) simp
  have 5: "mset (map normal_entry (response_section (fst (GetInfo m it1)))) =
      mset (map normal_entry (response_section (fst (GetInfo m it2))))"
    unfolding response_section_eq map_concat map_map
  proof (rule mset_concat_map_cong [OF r])
    fix x assume "x \<in> set (range_over (it_response it1) ?rd)"
    then have b: "?rd (fst x) = Some (snd x)"
      by (auto simp: set_range_over)
    with v1 v2 have o: "valid_order (it_codes it1 (fst x)) (snd x)"
      "valid_order (it_codes it2 (fst x)) (snd x)"
      "valid_order (it_codes_print it1 (fst x)) (snd x)"
      "valid_order (it_codes_print it2 (fst x)) (snd x)"
      by (auto simp: valid_iteration_def)
    from o(3,4) have "mset (range_over (it_codes_print it1 (fst x)) (snd x)) =
        mset (range_over (it_codes_print it2 (fst x)) (snd x))"
      by (intro mset_range_over valid_order_mset)
    then show "(map normal_entry \<circ>
          (\<lambda>x. if fst (response_totals (range_over (it_codes it1 (fst x)) (snd x))) \<and>
                   100 < snd (response_totals (range_over (it_codes it1 (fst x)) (snd x)))
                then [(fst x, range_over (it_codes_print it1 (fst x)) (snd x),
                       snd (response_totals (range_over (it_codes it1 (fst x)) (snd x))))]
                else [])) x =
        (map normal_entry \<circ>
          (\<lambda>x. if fst (response_totals (range_over (it_codes it2 (fst x)) (snd x))) \<and>
                   100 < snd (response_totals (range_over (it_codes it2 (fst x)) (snd x)))
                then [(fst x, range_over (it_codes_print it2 (fst x)) (snd x),
                       snd (response_totals (range_over (it_codes it2 (fst x)) (snd x))))]
                else [])) x"
      by (simp add: response_totals_valid [OF o(1)] response_totals_valid [OF o(2)]
          normal_entry_def)
  qed
  from 1 2 3 4 5 show ?thesis by (simp add: same_report_def)
qed

text \<open>
  Claim C9, as amended. \<open>GetInfo\<close> leaves the collector as it was, so
  \<open>latencyData\<close>, \<open>responseData\<close> and \<open>timedOutData\<close> are unchanged, and two calls in a
  row report the same values up to the order in which each call visits the maps:
  the same count of tracked requests and of requests over the threshold, and the
  same entries in every section, listed in an order that may differ.
\<close>

theorem GetInfo_read_only:
  assumes "valid_iteration m it1" and "valid_iteration m it2"
  shows "snd (GetInfo m it1) = m \<and>
         snd (GetInfo (snd (GetInfo m it1)) it2) = m \<and>
         same_report (fst (GetInfo m it1)) (fst (GetInfo (snd (GetInfo m it1)) it2))"
  using same_report_valid [OF assms] by (simp add: GetInfo_state)


lemma two_groups_state:
  "two_groups =
     \<lparr>mc_group = GroupKindPath, mc_metric = MetricKindLatency,
      latencyData = Some
        [''/foo'' \<mapsto> \<lparr>IP = ''10.0.0.7:80'',
            Latencies = [\<lparr>latency = 123 / 1000, time = ''10/Oct/2023:13:55:36''\<rparr>]\<rparr>,
         ''/bar'' \<mapsto> \<lparr>IP = ''10.0.0.7:80'',
            Latencies = [\<lparr>latency = 123 / 1000, time = ''10/Oct/2023:13:55:36''\<rparr>]\<rparr>],
      responseData = Some [''/foo'' \<mapsto> [200 \<mapsto> 1], ''/bar'' \<mapsto> [200 \<mapsto> 1]],
      timedOutData = Some [''/foo'' \<mapsto> \<lparr>Count = 0, Total = 1\<rparr>,
                           ''/bar'' \<mapsto> \<lparr>Count = 0, Total = 1\<rparr>]\<rparr>"
  by (simp add: two_groups_def AddLines_def AddLine_def NewMetricCollector_def entries_def
      access_line_record_def bar_record_def Let_def)

lemma valid_order_two: "a \<noteq> b \<Longrightarrow> valid_order [a, b] [a \<mapsto> x, b \<mapsto> y]"
  "a \<noteq> b \<Longrightarrow> valid_order [b, a] [a \<mapsto> x, b \<mapsto> y]"
  by (auto simp: valid_order_def)

lemma valid_order_one: "valid_order [a] [a \<mapsto> x]"
  by (simp add: valid_order_def)

lemma two_groups_valid:
  "valid_iteration two_groups foo_bar_iteration" "valid_iteration two_groups bar_foo_iteration"
  by (auto simp: valid_iteration_def two_groups_state foo_bar_iteration_def
      bar_foo_iteration_def entries_def valid_order_two valid_order_one split: if_splits)

lemma busy_valid: "valid_iteration busy_collector busy_iteration"
  by (auto simp: valid_iteration_def busy_collector_def busy_iteration_def entries_def
      valid_order_two valid_order_one valid_order_def split: if_splits)

text \<open>
  Claim C7 on the code. \<open>GetInfo\<close> reports \<open>numOver2s\<close> together with the count of
  tracked requests, but a sample is counted only when its latency is above 2000,
  not above 2: of the two samples of 3 seconds and of 2500 seconds, one is counted.
\<close>

theorem GetInfo_counts_over_2000:
  "fst (GetInfo (AddLines (NewMetricCollector GroupKindPath MetricKindLatency)
      [slow_record, very_slow_record]) foo_iteration) =
   \<lparr>countReqs = 2, response_section = [], timeout_section = [],
    latency_section = [(''/foo'', 2503, 2)], numOver2s = 1\<rparr>"
  by (simp add: GetInfo_def AddLines_def AddLine_def NewMetricCollector_def entries_def
      slow_record_def very_slow_record_def access_line_record_def foo_iteration_def
      range_over_def response_totals_def count_over_def Let_def)

theorem GetInfo_sections_witness:
  "''/slow'' \<in> fst ` set (response_section (fst (GetInfo busy_collector busy_iteration))) \<and>
   ''/slow'' \<in> fst ` set (timeout_section (fst (GetInfo busy_collector busy_iteration))) \<and>
   group_total busy_collector ''/bar'' \<le> 100 \<and>
   sint (Total (group_timeouts busy_collector ''/bar'')) \<le> 100 \<and>
   ''/bar'' \<notin> fst ` set (response_section (fst (GetInfo busy_collector busy_iteration))) \<and>
   ''/bar'' \<notin> fst ` set (timeout_section (fst (GetInfo busy_collector busy_iteration)))"
proof -
  have t: "group_total busy_collector ''/bar'' \<le> 100"
    "sint (Total (group_timeouts busy_collector ''/bar'')) \<le> 100"
    by (simp_all add: group_total_def group_timeouts_def busy_collector_def entries_def
        hist_total_single)
  have s: "entries (responseData busy_collector) ''/slow'' = Some [504 \<mapsto> 101]"
    "entries (timedOutData busy_collector) ''/slow'' = Some \<lparr>Count = 101, Total = 101\<rparr>"
    by (simp_all add: busy_collector_def entries_def)
  have r1: "\<exists>b. entries (responseData busy_collector) ''/slow'' = Some b \<and>
      (\<exists>c\<in>dom b. 400 \<le> sint c) \<and> 100 < hist_total b"
    using s by (simp add: hist_total_single)
  have r2: "\<exists>t. entries (timedOutData busy_collector) ''/slow'' = Some t \<and>
      0 < sint (Count t) \<and> 100 < sint (Total t)"
    using s by simp
  from GetInfo_sections [OF busy_valid, of "''/slow''"] r1 r2
  have sl: "''/slow'' \<in> fst ` set (response_section (fst (GetInfo busy_collector busy_iteration)))"
    "''/slow'' \<in> fst ` set (timeout_section (fst (GetInfo busy_collector busy_iteration)))"
    by blast+
  from GetInfo_sections [OF busy_valid, of "''/bar''"] t
  have nb: "''/bar'' \<notin> fst ` set (response_section (fst (GetInfo busy_collector busy_iteration)))"
    "''/bar'' \<notin> fst ` set (timeout_section (fst (GetInfo busy_collector busy_iteration)))"
    by blast+
  from t sl nb show ?thesis by blast
qed

text \<open>
  The claim C9 as the specification states it, identical output of two calls in a
  row, fails for a collector with two groups when the second call visits them in
  the other order: the lines of the latency table come out in the other order.
\<close>

theorem GetInfo_order_differs:
  "valid_order (it_latency foo_bar_iteration) (entries (latencyData two_groups)) \<and>
   valid_order (it_latency bar_foo_iteration) (entries (latencyData two_groups)) \<and>
   latency_section (fst (GetInfo two_groups foo_bar_iteration)) =
     [(''/foo'', 123 / 1000, 1), (''/bar'', 123 / 1000, 1)] \<and>
   latency_section (fst (GetInfo (snd (GetInfo two_groups foo_bar_iteration)) bar_foo_iteration)) =
     [(''/bar'', 123 / 1000, 1), (''/foo'', 123 / 1000, 1)] \<and>
   fst (GetInfo two_groups foo_bar_iteration) \<noteq>
     fst (GetInfo (snd (GetInfo two_groups foo_bar_iteration)) bar_foo_iteration)"
proof -
  have a: "latency_section (fst (GetInfo two_groups foo_bar_iteration)) =
     [(''/foo'', 123 / 1000, 1), (''/bar'', 123 / 1000, 1)]"
    by (simp add: latency_section_eq two_groups_state foo_bar_iteration_def range_over_def
        entries_def)
  have b: "latency_section (fst (GetInfo two_groups bar_foo_iteration)) =
     [(''/bar'', 123 / 1000, 1), (''/foo'', 123 / 1000, 1)]"
    by (simp add: latency_section_eq two_groups_state bar_foo_iteration_def range_over_def
        entries_def)
  from a b have "latency_section (fst (GetInfo two_groups foo_bar_iteration)) \<noteq>
      latency_section (fst (GetInfo two_groups bar_foo_iteration))"
    by simp
  then have "fst (GetInfo two_groups foo_bar_iteration) \<noteq>
      fst (GetInfo two_groups bar_foo_iteration)"
    by auto
  moreover have "valid_order (it_latency foo_bar_iteration) (entries (latencyData two_groups))"
    "valid_order (it_latency bar_foo_iteration) (entries (latencyData two_groups))"
    using two_groups_valid by (simp_all add: valid_iteration_def)
  ultimately show ?thesis using a b by (simp add: GetInfo_state)
qed

theorem GetInfo_read_only_witness:
  "snd (GetInfo two_groups foo_bar_iteration) = two_groups \<and>
   snd (GetInfo (snd (GetInfo two_groups foo_bar_iteration)) bar_foo_iteration) = two_groups \<and>
   same_report (fst (GetInfo two_groups foo_bar_iteration))
     (fst (GetInfo (snd (GetInfo two_groups foo_bar_iteration)) bar_foo_iteration))"
  using GetInfo_read_only [OF two_groups_valid] by blast

end
